theory Spec2Isabelle
  imports Complex_Main "HOL-Library.List_Lexorder" "HOL-Library.Char_ord"
begin

section \<open>Python values\<close>

text \<open>
  The model follows \<^verbatim>\<open>minimize_ninja/cli.py\<close>, function \<^verbatim>\<open>slim_file\<close>.
  A Python float is a finite value, an infinity or NaN. Every finite double is a rational
  number and comparison of doubles is exact, so a finite float is modelled by the rational
  it denotes; the presets 2.0, 1.5 and 1.0 are doubles.
\<close>

datatype pyfloat = Finite rat | PosInf | NegInf | NaN

text \<open>Python's \<^verbatim>\<open>a < b\<close> on floats: every comparison with NaN is false.\<close>

fun float_lt :: "pyfloat \<Rightarrow> pyfloat \<Rightarrow> bool" where
  "float_lt (Finite a) (Finite b) = (a < b)"
| "float_lt (Finite a) PosInf = True"
| "float_lt NegInf (Finite b) = True"
| "float_lt NegInf PosInf = True"
| "float_lt _ _ = False"

datatype error = ZeroDivisionError | KeyError | AttributeError | TypeError | StageError string

section \<open>Settings and quality presets\<close>

text \<open>
  The keyword parameters of \<^verbatim>\<open>slim_file\<close>; the quality selector may overwrite the
  first four. The defaults of the signature are \<^verbatim>\<open>resize_factor=2.0\<close>,
  \<^verbatim>\<open>jpeg_compression=85\<close>, \<^verbatim>\<open>png_convert=False\<close>, \<^verbatim>\<open>export_pdf=False\<close>,
  \<^verbatim>\<open>pdf_all_stages=False\<close>, \<^verbatim>\<open>keep_unpacked=False\<close>, \<^verbatim>\<open>pdf_suffix=''\<close>.
\<close>

record settings =
  resize_factor :: pyfloat
  jpeg_compression :: int
  png_convert :: bool
  export_pdf :: bool
  pdf_all_stages :: bool
  keep_unpacked :: bool
  pdf_suffix :: string

definition default_settings :: settings where
  "default_settings =
     \<lparr>resize_factor = Finite 2, jpeg_compression = 85, png_convert = False, export_pdf = False,
      pdf_all_stages = False, keep_unpacked = False, pdf_suffix = []\<rparr>"

text \<open>
  Lines 44-62, the \<^verbatim>\<open>match quality\<close> statement. A \<^verbatim>\<open>match\<close> with no matching
  case and no wildcard falls through without an error.
\<close>

definition match_quality :: "int \<Rightarrow> settings \<Rightarrow> settings" where
  "match_quality quality s =
     (if quality = 0 then s
      else if quality = 1 then
        s\<lparr>resize_factor := Finite 2, jpeg_compression := 80, png_convert := True, export_pdf := True\<rparr>
      else if quality = 2 then
        s\<lparr>resize_factor := Finite (3 / 2), jpeg_compression := 75, png_convert := True, export_pdf := True\<rparr>
      else if quality = 3 then
        s\<lparr>resize_factor := Finite 1, jpeg_compression := 70, png_convert := True, export_pdf := True\<rparr>
      else s)"

text \<open>Lines 64-84: the two advisory warnings, in the order the code logs them.\<close>

datatype warning = ResizeFactorWarning | JpegQualityWarning

definition quality_warnings :: "settings \<Rightarrow> warning list" where
  "quality_warnings s =
     (if float_lt (resize_factor s) (Finite 2) then [ResizeFactorWarning] else []) @
     (if jpeg_compression s < 80 then [JpegQualityWarning] else [])"

section \<open>Metadata values\<close>

text \<open>
  The metadata fragments are parsed YAML: nested dictionaries and lists over scalars.
  Identifiers and type tags are integers or strings. A dictionary is the list of its items
  in insertion order; \<open>map_of\<close> is the lookup.
\<close>

datatype pyscalar = PInt int | PStr string

datatype yaml = YScalar pyscalar | YDict "(string \<times> yaml) list" | YList "yaml list"

text \<open>\<^verbatim>\<open>x[key]\<close> with a string key: only a dictionary holding the key answers.\<close>

fun py_getitem :: "yaml \<Rightarrow> string \<Rightarrow> error + yaml" where
  "py_getitem (YDict kvs) k = (case map_of kvs k of None \<Rightarrow> Inl KeyError | Some v \<Rightarrow> Inr v)"
| "py_getitem (YList xs) k = Inl TypeError"
| "py_getitem (YScalar c) k = Inl TypeError"

text \<open>\<^verbatim>\<open>x.get(key, default)\<close>: only dictionaries have the method.\<close>

fun py_get :: "yaml \<Rightarrow> string \<Rightarrow> yaml \<Rightarrow> error + yaml" where
  "py_get (YDict kvs) k d = (case map_of kvs k of None \<Rightarrow> Inr d | Some v \<Rightarrow> Inr v)"
| "py_get (YList xs) k d = Inl AttributeError"
| "py_get (YScalar c) k d = Inl AttributeError"

text \<open>\<^verbatim>\<open>needle in haystack\<close> on two strings is the substring test.\<close>

fun str_contains :: "string \<Rightarrow> string \<Rightarrow> bool" where
  "str_contains n [] = (n = [])"
| "str_contains n (c # cs) = (take (length n) (c # cs) = n \<or> str_contains n cs)"

text \<open>
  \<^verbatim>\<open>key in x\<close> with a string key: key membership for a dictionary, element membership
  for a list, substring for a string; an integer is not iterable.
\<close>

fun py_contains :: "string \<Rightarrow> yaml \<Rightarrow> error + bool" where
  "py_contains k (YDict kvs) = Inr (map_of kvs k \<noteq> None)"
| "py_contains k (YList xs) = Inr (YScalar (PStr k) \<in> set xs)"
| "py_contains k (YScalar (PStr s)) = Inr (str_contains k s)"
| "py_contains k (YScalar (PInt i)) = Inl TypeError"

text \<open>
  \<^verbatim>\<open>for x in v\<close>: a list yields its elements, a dictionary its keys, a string its
  characters; an integer is not iterable.
\<close>

fun py_iter :: "yaml \<Rightarrow> error + yaml list" where
  "py_iter (YList xs) = Inr xs"
| "py_iter (YDict kvs) = Inr (map (\<lambda>kv. YScalar (PStr (fst kv))) kvs)"
| "py_iter (YScalar (PStr s)) = Inr (map (\<lambda>c. YScalar (PStr [c])) s)"
| "py_iter (YScalar (PInt i)) = Inl TypeError"

section \<open>Image records and the image index\<close>

datatype ref_kind = SlideReference | SlideStyleReference

text \<open>A reference: its kind, the path of the fragment file and the referencing object.\<close>

datatype reference = Reference ref_kind string yaml

record image =
  filename_name :: string
  filename_suffix :: string
  size_original :: int
  size_converted :: int
  size_resized :: int
  size_optimized :: int
  references :: "reference list"

text \<open>
  \<^verbatim>\<open>images_dict\<close>: a dictionary from identifier to image object, as the list of its
  items in insertion order. The lists \<^verbatim>\<open>tiffies\<close> and \<^verbatim>\<open>pngs\<close> alias
  the objects of the dictionary; the model holds them as lists of keys.
\<close>

type_synonym images = "(pyscalar \<times> image) list"

definition dict_update :: "pyscalar \<Rightarrow> (image \<Rightarrow> image) \<Rightarrow> images \<Rightarrow> images" where
  "dict_update k f d = map (\<lambda>kv. if fst kv = k then (fst kv, f (snd kv)) else kv) d"

definition dict_values :: "images \<Rightarrow> pyscalar list \<Rightarrow> image list" where
  "dict_values d ks = List.map_filter (map_of d) ks"

text \<open>
  \<^verbatim>\<open>identifier in images_dict\<close>: a dictionary or a list is unhashable and raises.
\<close>

fun py_in_images :: "yaml \<Rightarrow> images \<Rightarrow> error + bool" where
  "py_in_images (YScalar i) d = Inr (map_of d i \<noteq> None)"
| "py_in_images (YDict kvs) d = Inl TypeError"
| "py_in_images (YList xs) d = Inl TypeError"

text \<open>
  Modelled from the spec: \<^verbatim>\<open>Image.add_slide_reference\<close> and
  \<^verbatim>\<open>Image.add_slide_style_reference\<close> of \<^verbatim>\<open>minimize_ninja/keynote.py\<close>, which
  is not among the sources. The spec: the scanner appends a reference record to the owning
  image record, holding the fragment identity and the structural role of the object;
  references are append-only.
\<close>

definition add_slide_reference :: "string \<Rightarrow> yaml \<Rightarrow> image \<Rightarrow> image" where
  "add_slide_reference yaml_file obj img =
     img\<lparr>references := references img @ [Reference SlideReference yaml_file obj]\<rparr>"

definition add_slide_style_reference :: "string \<Rightarrow> yaml \<Rightarrow> image \<Rightarrow> image" where
  "add_slide_style_reference yaml_file obj img =
     img\<lparr>references := references img @ [Reference SlideStyleReference yaml_file obj]\<rparr>"

section \<open>Reference scanning, lines 169-191\<close>

text \<open>A \<^verbatim>\<open>for\<close> loop whose body may raise: the first exception ends the loop.\<close>

fun py_for :: "'a list \<Rightarrow> ('a \<Rightarrow> 's \<Rightarrow> error + 's) \<Rightarrow> 's \<Rightarrow> error + 's" where
  "py_for [] body s = Inr s"
| "py_for (x # xs) body s = (case body x s of Inl e \<Rightarrow> Inl e | Inr s' \<Rightarrow> py_for xs body s')"

definition bind_err :: "error + 'a \<Rightarrow> ('a \<Rightarrow> error + 'b) \<Rightarrow> error + 'b" where
  "bind_err m f = (case m of Inl e \<Rightarrow> Inl e | Inr x \<Rightarrow> f x)"

text \<open>Lines 173-178: the direct shape, an object tagged \<^verbatim>\<open>TSD.ImageArchive\<close>.\<close>

definition direct_identifier :: "yaml \<Rightarrow> error + yaml" where
  "direct_identifier obj =
     bind_err (py_get obj ''data'' (YDict [])) (\<lambda>data.
       py_get data ''identifier'' (YScalar (PInt 0)))"

definition scan_direct :: "string \<Rightarrow> yaml \<Rightarrow> images \<Rightarrow> error + images" where
  "scan_direct yaml_file obj d =
     bind_err (py_getitem obj ''_pbtype'') (\<lambda>pbtype.
       if pbtype = YScalar (PStr ''TSD.ImageArchive'') then
         bind_err (direct_identifier obj) (\<lambda>identifier.
         bind_err (py_in_images identifier d) (\<lambda>found.
           if found then
             (case identifier of
                YScalar i \<Rightarrow> Inr (dict_update i (add_slide_reference yaml_file obj) d)
              | _ \<Rightarrow> Inl TypeError)
           else Inr d))
       else Inr d)"

text \<open>Lines 179-191: the style shape, an object tagged \<^verbatim>\<open>KN.SlideStyleArchive\<close>.\<close>

definition style_fill :: "yaml \<Rightarrow> error + yaml" where
  "style_fill obj =
     bind_err (py_get obj ''slideProperties'' (YDict [])) (\<lambda>props.
       py_get props ''fill'' (YDict []))"

definition style_identifier :: "yaml \<Rightarrow> error + yaml" where
  "style_identifier obj =
     bind_err (py_get obj ''slideProperties'' (YDict [])) (\<lambda>props.
     bind_err (py_get props ''fill'' (YDict [])) (\<lambda>fill.
     bind_err (py_get fill ''image'' (YDict [])) (\<lambda>img.
     bind_err (py_get img ''imagedata'' (YDict [])) (\<lambda>imagedata.
       py_get imagedata ''identifier'' (YScalar (PInt 0))))))"

definition scan_style :: "string \<Rightarrow> yaml \<Rightarrow> images \<Rightarrow> error + images" where
  "scan_style yaml_file obj d =
     bind_err (py_getitem obj ''_pbtype'') (\<lambda>pbtype.
       if pbtype = YScalar (PStr ''KN.SlideStyleArchive'') then
         bind_err (style_fill obj) (\<lambda>fill.
         bind_err (py_contains ''image'' fill) (\<lambda>has_image.
           if has_image then
             bind_err (style_identifier obj) (\<lambda>identifier.
             bind_err (py_in_images identifier d) (\<lambda>found.
               if found then
                 (case identifier of
                    YScalar i \<Rightarrow> Inr (dict_update i (add_slide_style_reference yaml_file obj) d)
                  | _ \<Rightarrow> Inl TypeError)
               else Inr d))
           else Inr d))
       else Inr d)"

text \<open>The body of the innermost loop: the two \<^verbatim>\<open>if\<close> statements in sequence.\<close>

definition scan_object :: "string \<Rightarrow> yaml \<Rightarrow> images \<Rightarrow> error + images" where
  "scan_object yaml_file obj d = bind_err (scan_direct yaml_file obj d) (scan_style yaml_file obj)"

definition scan_archive :: "string \<Rightarrow> yaml \<Rightarrow> images \<Rightarrow> error + images" where
  "scan_archive yaml_file archive d =
     bind_err (py_getitem archive ''objects'') (\<lambda>v.
     bind_err (py_iter v) (\<lambda>objects. py_for objects (scan_object yaml_file) d))"

definition scan_chunk :: "string \<Rightarrow> yaml \<Rightarrow> images \<Rightarrow> error + images" where
  "scan_chunk yaml_file chunk d =
     bind_err (py_getitem chunk ''archives'') (\<lambda>v.
     bind_err (py_iter v) (\<lambda>archives. py_for archives (scan_archive yaml_file) d))"

text \<open>
  A fragment: the path of the YAML file and its parsed content, the \<^verbatim>\<open>yaml\<close>
  attribute of a \<^verbatim>\<open>TiffyYaml\<close>.
\<close>

record fragment =
  path :: string
  content :: yaml

definition scan_file :: "fragment \<Rightarrow> images \<Rightarrow> error + images" where
  "scan_file yaml_file d =
     bind_err (py_getitem (content yaml_file) ''chunks'') (\<lambda>v.
     bind_err (py_iter v) (\<lambda>chunks. py_for chunks (scan_chunk (path yaml_file)) d))"

text \<open>
  Line 164 and line 169: \<^verbatim>\<open>all_yaml\<close> holds the fragments in the order in which
  \<^verbatim>\<open>kf.path_index.iterdir()\<close> yields the files; the loop visits them in that order.
\<close>

definition scan_references :: "fragment list \<Rightarrow> images \<Rightarrow> error + images" where
  "scan_references all_yaml d = py_for all_yaml scan_file d"

section \<open>The run and its observable events\<close>

text \<open>
  What a run does to its collaborators is recorded as a list of events: the warnings
  logged, the stage methods called (on which image, with which argument), the size
  summaries logged, and the calls to the archive and to the PDF export. A run is the
  events so far and either the exception that ended it or its result.
\<close>

datatype stage = TiffStage | PngStage | ResizeStage | OptimizeStage | FileStage

datatype event =
    Warn warning
  | Unpack
  | Convert pyscalar "int option"
  | Resize pyscalar pyfloat
  | Optimize pyscalar int
  | Summary stage int int rat
  | MetadataSave
  | Repack
  | Rmtree
  | ExportPdf string bool
  | Unlink

type_synonym 'a run = "event list \<times> (error + 'a)"

definition run_bind :: "'a run \<Rightarrow> ('a \<Rightarrow> 'b run) \<Rightarrow> 'b run" where
  "run_bind m f =
     (case m of
        (evs, Inl e) \<Rightarrow> (evs, Inl e)
      | (evs, Inr x) \<Rightarrow> (case f x of (evs', r) \<Rightarrow> (evs @ evs', r)))"

definition emit :: "event list \<Rightarrow> unit run" where
  "emit evs = (evs, Inr ())"

definition lift_err :: "error + 'a \<Rightarrow> 'a run" where
  "lift_err r = ([], r)"

text \<open>
  The stage methods \<^verbatim>\<open>convert\<close>, \<^verbatim>\<open>resize\<close> and \<^verbatim>\<open>optimize\<close> of the image
  objects belong to \<^verbatim>\<open>minimize_ninja/keynote.py\<close>; they are parameters of the model.
  Each takes the image and returns the mutated image or raises. \<^verbatim>\<open>convert\<close> is
  called without argument for TIFF files and with \<^verbatim>\<open>jpeg_compression\<close> for PNG files.
\<close>

record image_ops =
  convert :: "int option \<Rightarrow> image \<Rightarrow> error + image"
  resize :: "pyfloat \<Rightarrow> image \<Rightarrow> error + image"
  optimize :: "int \<Rightarrow> image \<Rightarrow> error + image"

text \<open>
  What the \<^verbatim>\<open>KeynoteFile\<close> object and the operating system supply: the image
  dictionary after unpacking, the fragment files in \<^verbatim>\<open>iterdir\<close> order, the size of
  the original file, the size of the repacked file (it depends on the final images) and
  the return code of the AppleScript call.
\<close>

record keynote_file =
  images_dict :: images
  index_files :: "fragment list"
  keynote_size :: int
  repacked_size :: "images \<Rightarrow> int"
  applescript_code :: int

text \<open>
  \<^verbatim>\<open>for img in imgs: img.method(...)\<close> over image objects of the dictionary, given by
  their keys. The call is recorded, then made; an exception leaves the loop at once.
\<close>

fun stage_loop ::
  "(pyscalar \<Rightarrow> event) \<Rightarrow> (image \<Rightarrow> error + image) \<Rightarrow> pyscalar list \<Rightarrow> images \<Rightarrow> images run" where
  "stage_loop ev f [] d = ([], Inr d)"
| "stage_loop ev f (k # ks) d =
     (case map_of d k of
        None \<Rightarrow> stage_loop ev f ks d
      | Some img \<Rightarrow>
          (case f img of
             Inl e \<Rightarrow> ([ev k], Inl e)
           | Inr img' \<Rightarrow>
               (case stage_loop ev f ks (dict_update k (\<lambda>_. img') d) of
                  (evs, r) \<Rightarrow> (ev k # evs, r))))"

text \<open>
  \<^verbatim>\<open>a / b\<close> on integers is true division and raises on a zero divisor. The quotient is
  kept exact; Python rounds it to a double.
\<close>

definition py_truediv :: "int \<Rightarrow> int \<Rightarrow> error + rat" where
  "py_truediv a b = (if b = 0 then Inl ZeroDivisionError else Inr (of_int a / of_int b))"

text \<open>\<^verbatim>\<open>reduction = (1.0 - (after / before)) * 100.0\<close>, lines 118, 148, 200, 222, 238.\<close>

definition reduction :: "int \<Rightarrow> int \<Rightarrow> error + rat" where
  "reduction size_after size_before =
     bind_err (py_truediv size_after size_before) (\<lambda>q. Inr ((1 - q) * 100))"

text \<open>The size summary of a stage: the two totals, the reduction, the log message.\<close>

definition summarize :: "stage \<Rightarrow> int \<Rightarrow> int \<Rightarrow> unit run" where
  "summarize st size_before size_after =
     (case reduction size_after size_before of
        Inl e \<Rightarrow> ([], Inl e)
      | Inr r \<Rightarrow> ([Summary st size_before size_after r], Inr ()))"

definition tiffies_of :: "images \<Rightarrow> pyscalar list" where
  "tiffies_of d = map fst (filter (\<lambda>kv. str_contains ''tif'' (filename_suffix (snd kv))) d)"

definition pngs_of :: "images \<Rightarrow> pyscalar list" where
  "pngs_of d = map fst (filter (\<lambda>kv. str_contains ''png'' (filename_suffix (snd kv))) d)"

text \<open>Lines 102-129.\<close>

definition convert_tiffs :: "image_ops \<Rightarrow> pyscalar list \<Rightarrow> images \<Rightarrow> images run" where
  "convert_tiffs ops tiffies d =
     (if tiffies \<noteq> [] then
        run_bind (stage_loop (\<lambda>k. Convert k None) (convert ops None) tiffies d) (\<lambda>d'.
        run_bind (summarize TiffStage
                    (sum_list (map size_original (dict_values d' tiffies)))
                    (sum_list (map size_converted (dict_values d' tiffies)))) (\<lambda>_.
        run_bind (emit [MetadataSave]) (\<lambda>_. ([], Inr d'))))
      else ([], Inr d))"

text \<open>Lines 131-156.\<close>

definition convert_pngs :: "image_ops \<Rightarrow> settings \<Rightarrow> pyscalar list \<Rightarrow> images \<Rightarrow> images run" where
  "convert_pngs ops s pngs d =
     (if pngs \<noteq> [] \<and> png_convert s then
        run_bind (stage_loop (\<lambda>k. Convert k (Some (jpeg_compression s)))
                    (convert ops (Some (jpeg_compression s))) pngs d) (\<lambda>d'.
        run_bind (summarize PngStage
                    (sum_list (map size_original (dict_values d' pngs)))
                    (sum_list (map size_converted (dict_values d' pngs)))) (\<lambda>_.
        run_bind (emit [MetadataSave]) (\<lambda>_. ([], Inr d'))))
      else ([], Inr d))"

text \<open>Lines 193-206.\<close>

definition resize_images :: "image_ops \<Rightarrow> settings \<Rightarrow> images \<Rightarrow> images run" where
  "resize_images ops s d =
     run_bind (stage_loop (\<lambda>k. Resize k (resize_factor s)) (resize ops (resize_factor s))
                 (map fst d) d) (\<lambda>d'.
     run_bind (summarize ResizeStage
                 (sum_list (map (\<lambda>kv. size_converted (snd kv)) d'))
                 (sum_list (map (\<lambda>kv. size_resized (snd kv)) d'))) (\<lambda>_. ([], Inr d')))"

text \<open>Lines 215-228.\<close>

definition optimize_images :: "image_ops \<Rightarrow> settings \<Rightarrow> images \<Rightarrow> images run" where
  "optimize_images ops s d =
     run_bind (stage_loop (\<lambda>k. Optimize k (jpeg_compression s)) (optimize ops (jpeg_compression s))
                 (map fst d) d) (\<lambda>d'.
     run_bind (summarize OptimizeStage
                 (sum_list (map (\<lambda>kv. size_resized (snd kv)) d'))
                 (sum_list (map (\<lambda>kv. size_optimized (snd kv)) d'))) (\<lambda>_. ([], Inr d')))"

text \<open>Lines 230-273: repacking, the file-size summary, cleaning up and the PDF export.\<close>

definition finish :: "keynote_file \<Rightarrow> settings \<Rightarrow> images \<Rightarrow> images run" where
  "finish kf s d =
     run_bind (emit [Repack]) (\<lambda>_.
     run_bind (summarize FileStage (keynote_size kf) (repacked_size kf d)) (\<lambda>_.
     run_bind (emit (if \<not> keep_unpacked s then [Rmtree] else [])) (\<lambda>_.
     run_bind (emit (if export_pdf s
                     then ExportPdf (pdf_suffix s) (pdf_all_stages s) #
                          (if applescript_code kf = 0 then [Unlink] else [])
                     else [])) (\<lambda>_. ([], Inr d)))))"

text \<open>Lines 86-273: everything after the warnings, under the effective settings.\<close>

definition pipeline :: "image_ops \<Rightarrow> keynote_file \<Rightarrow> settings \<Rightarrow> images run" where
  "pipeline ops kf s =
     run_bind (emit [Unpack]) (\<lambda>_.
     run_bind (convert_tiffs ops (tiffies_of (images_dict kf)) (images_dict kf)) (\<lambda>d1.
     run_bind (convert_pngs ops s (pngs_of (images_dict kf)) d1) (\<lambda>d2.
     run_bind (lift_err (scan_references (index_files kf) d2)) (\<lambda>d3.
     run_bind (resize_images ops s d3) (\<lambda>d4.
     run_bind (optimize_images ops s d4) (\<lambda>d5.
       finish kf s d5))))))"

text \<open>
  \<^verbatim>\<open>slim_file\<close>: the quality selector fixes the effective settings, the warnings are
  logged, the pipeline runs. The result is the final state of the image dictionary.
\<close>

definition slim_file :: "image_ops \<Rightarrow> keynote_file \<Rightarrow> int \<Rightarrow> settings \<Rightarrow> images run" where
  "slim_file ops kf quality args =
     (let s = match_quality quality args in
      run_bind (emit (map Warn (quality_warnings s))) (\<lambda>_. pipeline ops kf s))"

section \<open>Projections of the event list\<close>

fun warnings_of :: "event list \<Rightarrow> warning list" where
  "warnings_of [] = []"
| "warnings_of (Warn w # evs) = w # warnings_of evs"
| "warnings_of (_ # evs) = warnings_of evs"

fun is_stage_call :: "event \<Rightarrow> bool" where
  "is_stage_call (Convert k q) = True"
| "is_stage_call (Resize k f) = True"
| "is_stage_call (Optimize k q) = True"
| "is_stage_call _ = False"

fun is_png_convert :: "event \<Rightarrow> bool" where
  "is_png_convert (Convert k (Some q)) = True"
| "is_png_convert _ = False"

text \<open>
  \<open>ends_with_call r\<close>: if the run \<open>r\<close> ended with the error of a stage method, the last
  event is the call of a stage method.
\<close>

definition ends_with_call :: "'a run \<Rightarrow> bool" where
  "ends_with_call r =
     (case snd r of
        Inl (StageError m) \<Rightarrow> fst r \<noteq> [] \<and> is_stage_call (last (fst r))
      | _ \<Rightarrow> True)"

fun ref_path :: "reference \<Rightarrow> string" where
  "ref_path (Reference kind p obj) = p"

text \<open>
  \<open>extends_image P img img'\<close>: the image \<open>img'\<close> is \<open>img\<close> with further references
  appended at the end, each satisfying \<open>P\<close>; what was attached before is still there, in
  place. \<open>extends_images\<close> says so for every entry of a dictionary, key by key.
\<close>

definition extends_image :: "(reference \<Rightarrow> bool) \<Rightarrow> image \<Rightarrow> image \<Rightarrow> bool" where
  "extends_image P img img' =
     (img'\<lparr>references := references img\<rparr> = img
      \<and> take (length (references img)) (references img') = references img
      \<and> list_all P (drop (length (references img)) (references img')))"

definition extends_images :: "(reference \<Rightarrow> bool) \<Rightarrow> images \<Rightarrow> images \<Rightarrow> bool" where
  "extends_images P d d' =
     list_all2 (\<lambda>kv kv'. fst kv' = fst kv \<and> extends_image P (snd kv) (snd kv')) d d'"

section \<open>Example inputs\<close>

definition tiff_image :: image where
  "tiff_image =
     \<lparr>filename_name = ''a.tif'', filename_suffix = ''.tif'', size_original = 1000000,
      size_converted = 1000000, size_resized = 1000000, size_optimized = 1000000,
      references = []\<rparr>"

definition png_image :: image where
  "png_image =
     \<lparr>filename_name = ''b.png'', filename_suffix = ''.png'', size_original = 500000,
      size_converted = 500000, size_resized = 500000, size_optimized = 500000,
      references = []\<rparr>"

definition image_object :: "int \<Rightarrow> yaml" where
  "image_object i =
     YDict [(''_pbtype'', YScalar (PStr ''TSD.ImageArchive'')),
            (''data'', YDict [(''identifier'', YScalar (PInt i))])]"

definition style_object :: "int \<Rightarrow> yaml" where
  "style_object i =
     YDict [(''_pbtype'', YScalar (PStr ''KN.SlideStyleArchive'')),
            (''slideProperties'',
               YDict [(''fill'',
                 YDict [(''image'',
                   YDict [(''imagedata'', YDict [(''identifier'', YScalar (PInt i))])])])])]"

definition color_style_object :: yaml where
  "color_style_object =
     YDict [(''_pbtype'', YScalar (PStr ''KN.SlideStyleArchive'')),
            (''slideProperties'',
               YDict [(''fill'', YDict [(''color'', YDict [(''model'', YScalar (PStr ''rgb''))])])])]"

definition bare_style_object :: yaml where
  "bare_style_object = YDict [(''_pbtype'', YScalar (PStr ''KN.SlideStyleArchive''))]"

definition bare_image_object :: yaml where
  "bare_image_object = YDict [(''_pbtype'', YScalar (PStr ''TSD.ImageArchive''))]"

definition empty_image_style_object :: yaml where
  "empty_image_style_object =
     YDict [(''_pbtype'', YScalar (PStr ''KN.SlideStyleArchive'')),
            (''slideProperties'', YDict [(''fill'', YDict [(''image'', YDict [])])])]"



definition fragment_of :: "string \<Rightarrow> yaml list \<Rightarrow> fragment" where
  "fragment_of name objs =
     \<lparr>path = name,
      content = YDict [(''chunks'', YList [YDict [(''archives'', YList [YDict [(''objects'', YList objs)]])]])]\<rparr>"

text \<open>Stage methods that succeed: conversion and optimisation halve the size.\<close>

definition halving_ops :: image_ops where
  "halving_ops =
     \<lparr>convert = (\<lambda>q img. Inr (img\<lparr>filename_suffix := ''.jpeg'', size_converted := size_original img div 2,
                                      size_resized := size_original img div 2,
                                      size_optimized := size_original img div 2\<rparr>)),
      resize = (\<lambda>f img. Inr (img\<lparr>size_resized := size_converted img, size_optimized := size_converted img\<rparr>)),
      optimize = (\<lambda>q img. Inr (img\<lparr>size_optimized := size_resized img div 2\<rparr>))\<rparr>"

text \<open>Stage methods whose conversion cannot decode its input.\<close>

definition undecodable_ops :: image_ops where
  "undecodable_ops = halving_ops\<lparr>convert := (\<lambda>q img. Inl (StageError ''UnsupportedFormatError''))\<rparr>"

text \<open>Two fragments that both reference image 1, listed with \<^verbatim>\<open>b\<close> before \<^verbatim>\<open>a\<close>.\<close>

definition listing_b_a :: "fragment list" where
  "listing_b_a =
     [fragment_of ''b.iwa.yaml'' [image_object 1], fragment_of ''a.iwa.yaml'' [image_object 1]]"

text \<open>Stage methods whose conversion succeeds on \<^verbatim>\<open>.tif\<close> and fails on \<^verbatim>\<open>.tiff\<close>.\<close>

definition picky_ops :: image_ops where
  "picky_ops =
     halving_ops\<lparr>convert := (\<lambda>q img. if filename_suffix img = ''.tiff''
                                      then Inl (StageError ''UnsupportedFormatError'')
                                      else convert halving_ops q img)\<rparr>"

text \<open>Stage methods whose PNG conversion (the call with a quality) cannot encode.\<close>

definition png_failing_ops :: image_ops where
  "png_failing_ops =
     halving_ops\<lparr>convert := (\<lambda>q img. if q \<noteq> None
                                      then Inl (StageError ''EncodingError'')
                                      else convert halving_ops q img)\<rparr>"

text \<open>Stage methods whose resize fails on the image \<^verbatim>\<open>a.tif\<close>.\<close>

definition resize_failing_ops :: image_ops where
  "resize_failing_ops =
     halving_ops\<lparr>resize := (\<lambda>f img. if filename_name img = ''a.tif''
                                     then Inl (StageError ''EncodingError'')
                                     else resize halving_ops f img)\<rparr>"

text \<open>Stage methods whose optimisation fails on the image \<^verbatim>\<open>a.tif\<close>.\<close>

definition optimize_failing_ops :: image_ops where
  "optimize_failing_ops =
     halving_ops\<lparr>optimize := (\<lambda>q img. if filename_name img = ''a.tif''
                                       then Inl (StageError ''EncodingError'')
                                       else optimize halving_ops q img)\<rparr>"

definition small_kf :: keynote_file where
  "small_kf =
     \<lparr>images_dict = [(PInt 1, tiff_image), (PInt 2, png_image)],
      index_files = [fragment_of ''Slide-1.iwa.yaml'' [image_object 1, style_object 2, image_object 99]],
      keynote_size = 2000000,
      repacked_size = (\<lambda>d. sum_list (map (\<lambda>kv. size_optimized (snd kv)) d) + 1000),
      applescript_code = 0\<rparr>"

text \<open>A file with two TIFF images.\<close>

definition tiff_kf :: keynote_file where
  "tiff_kf =
     small_kf\<lparr>images_dict :=
       [(PInt 1, tiff_image),
        (PInt 3, tiff_image\<lparr>filename_name := ''c.tiff'', filename_suffix := ''.tiff''\<rparr>)]\<rparr>"

definition png_kf :: keynote_file where
  "png_kf = small_kf\<lparr>images_dict := [(PInt 2, png_image)]\<rparr>"

definition empty_kf :: keynote_file where
  "empty_kf = small_kf\<lparr>images_dict := []\<rparr>"

section \<open>Quality presets\<close>

text \<open>
  C5. The quality selector is a lookup: selector 1 gives resize factor 2.0, JPEG quality 80
  and switches PNG conversion and PDF export on; selector 2 gives 1.5 and 75, selector 3
  gives 1.0 and 70, both with conversion and export on; selector 0 returns the settings of
  the caller. For 1, 2 and 3 the four settings written do not depend on what the caller
  passed, and the other parameters are not touched.
\<close>

theorem match_quality_lookup:
  "match_quality 1 s =
     s\<lparr>resize_factor := Finite 2, jpeg_compression := 80, png_convert := True, export_pdf := True\<rparr>
   \<and> match_quality 2 s =
     s\<lparr>resize_factor := Finite (3 / 2), jpeg_compression := 75, png_convert := True, export_pdf := True\<rparr>
   \<and> match_quality 3 s =
     s\<lparr>resize_factor := Finite 1, jpeg_compression := 70, png_convert := True, export_pdf := True\<rparr>
   \<and> match_quality 0 s = s"
  by (simp add: match_quality_def)

text \<open>
  C9. A quality selector outside 0..3 matches no case: the settings of the caller are
  kept, and the whole run is the run of selector 0.
\<close>

theorem match_quality_out_of_range:
  assumes "quality < 0 \<or> 3 < quality"
  shows "match_quality quality s = s \<and> slim_file ops kf quality s = slim_file ops kf 0 s"
  using assms by (auto simp: match_quality_def slim_file_def)

theorem match_quality_out_of_range_witness:
  "((4::int) < 0 \<or> 3 < (4::int))
   \<and> match_quality 4 default_settings = default_settings
   \<and> slim_file halving_ops small_kf 4 default_settings = slim_file halving_ops small_kf 0 default_settings
   \<and> match_quality (- 1) default_settings = default_settings
   \<and> slim_file halving_ops small_kf (- 1) default_settings = slim_file halving_ops small_kf 0 default_settings"
  using match_quality_out_of_range [of 4 default_settings halving_ops small_kf]
        match_quality_out_of_range [of "- 1" default_settings halving_ops small_kf]
  by simp

section \<open>The reference scanner on one object\<close>

lemma scan_style_other_tag:
  "py_getitem obj ''_pbtype'' = Inr t \<Longrightarrow> t \<noteq> YScalar (PStr ''KN.SlideStyleArchive'')
   \<Longrightarrow> scan_style yf obj d = Inr d"
  by (simp add: scan_style_def bind_err_def)

lemma scan_direct_other_tag:
  "py_getitem obj ''_pbtype'' = Inr t \<Longrightarrow> t \<noteq> YScalar (PStr ''TSD.ImageArchive'')
   \<Longrightarrow> scan_direct yf obj d = Inr d"
  by (simp add: scan_direct_def bind_err_def)

lemma scan_direct_resolved:
  "py_getitem obj ''_pbtype'' = Inr (YScalar (PStr ''TSD.ImageArchive'')) \<Longrightarrow>
   direct_identifier obj = Inr (YScalar i) \<Longrightarrow>
   scan_direct yf obj d =
     Inr (if map_of d i \<noteq> None then dict_update i (add_slide_reference yf obj) d else d)"
  by (simp add: scan_direct_def bind_err_def)

lemma scan_style_no_image:
  "py_getitem obj ''_pbtype'' = Inr (YScalar (PStr ''KN.SlideStyleArchive'')) \<Longrightarrow>
   bind_err (style_fill obj) (py_contains ''image'') = Inr False \<Longrightarrow>
   scan_style yf obj d = Inr d"
  by (auto simp: scan_style_def bind_err_def split: sum.splits)

lemma scan_style_resolved:
  "py_getitem obj ''_pbtype'' = Inr (YScalar (PStr ''KN.SlideStyleArchive'')) \<Longrightarrow>
   bind_err (style_fill obj) (py_contains ''image'') = Inr True \<Longrightarrow>
   style_identifier obj = Inr (YScalar i) \<Longrightarrow>
   scan_style yf obj d =
     Inr (if map_of d i \<noteq> None then dict_update i (add_slide_style_reference yf obj) d else d)"
  by (auto simp: scan_style_def bind_err_def split: sum.splits)

lemma scan_object_direct:
  "py_getitem obj ''_pbtype'' = Inr (YScalar (PStr ''TSD.ImageArchive'')) \<Longrightarrow>
   direct_identifier obj = Inr (YScalar i) \<Longrightarrow>
   scan_object yf obj d =
     Inr (if map_of d i \<noteq> None then dict_update i (add_slide_reference yf obj) d else d)"
  by (simp add: scan_object_def scan_direct_resolved scan_style_other_tag bind_err_def)

lemma scan_object_style:
  "py_getitem obj ''_pbtype'' = Inr (YScalar (PStr ''KN.SlideStyleArchive'')) \<Longrightarrow>
   bind_err (style_fill obj) (py_contains ''image'') = Inr True \<Longrightarrow>
   style_identifier obj = Inr (YScalar i) \<Longrightarrow>
   scan_object yf obj d =
     Inr (if map_of d i \<noteq> None then dict_update i (add_slide_style_reference yf obj) d else d)"
  by (simp add: scan_object_def scan_style_resolved scan_direct_other_tag bind_err_def)

lemma scan_object_style_no_image:
  "py_getitem obj ''_pbtype'' = Inr (YScalar (PStr ''KN.SlideStyleArchive'')) \<Longrightarrow>
   bind_err (style_fill obj) (py_contains ''image'') = Inr False \<Longrightarrow>
   scan_object yf obj d = Inr d"
  by (simp add: scan_object_def scan_style_no_image scan_direct_other_tag bind_err_def)

lemma no_image_path_guard:
  assumes "map_of kvs ''slideProperties'' = None
           \<or> (\<exists>sp. map_of kvs ''slideProperties'' = Some (YDict sp)
                 \<and> (map_of sp ''fill'' = None
                     \<or> (\<exists>fl. map_of sp ''fill'' = Some (YDict fl) \<and> map_of fl ''image'' = None)))"
  shows "bind_err (style_fill (YDict kvs)) (py_contains ''image'') = Inr False"
  using assms by (auto simp: style_fill_def bind_err_def)

lemma map_of_dict_update:
  "map_of (dict_update k f d) k' = (if k' = k then map_option f (map_of d k) else map_of d k')"
  by (induction d) (auto simp: dict_update_def)

lemma direct_identifier_default:
  assumes "map_of kvs ''data'' = None
           \<or> (\<exists>dt. map_of kvs ''data'' = Some (YDict dt) \<and> map_of dt ''identifier'' = None)"
  shows "direct_identifier (YDict kvs) = Inr (YScalar (PInt 0))"
  using assms by (auto simp: direct_identifier_def bind_err_def)

lemma style_identifier_default:
  assumes "map_of kvs ''slideProperties'' = Some (YDict sp)"
    and "map_of sp ''fill'' = Some (YDict fl)"
    and "map_of fl ''image'' = Some (YDict im)"
    and "map_of im ''imagedata'' = None
         \<or> (\<exists>idt. map_of im ''imagedata'' = Some (YDict idt) \<and> map_of idt ''identifier'' = None)"
  shows "style_identifier (YDict kvs) = Inr (YScalar (PInt 0))"
    and "bind_err (style_fill (YDict kvs)) (py_contains ''image'') = Inr True"
  using assms by (auto simp: style_identifier_def style_fill_def bind_err_def)






text \<open>
  C7, as stated, fails: a fill that holds an \<^verbatim>\<open>image\<close> entry without
  \<^verbatim>\<open>imagedata\<close> has no nested identifier path either, but the guard of line 180 is
  true for it, the identifier defaults to 0, and with 0 a key of the dictionary a style
  reference is attached.
\<close>

theorem style_image_without_identifier_counterexample:
  "py_getitem empty_image_style_object ''_pbtype'' = Inr (YScalar (PStr ''KN.SlideStyleArchive''))
   \<and> style_fill empty_image_style_object = Inr (YDict [(''image'', YDict [])])
   \<and> py_get (YDict []) ''imagedata'' (YDict []) = Inr (YDict [])
   \<and> scan_object ''Slide-1.iwa.yaml'' empty_image_style_object [(PInt 0, png_image)]
       = Inr [(PInt 0, png_image\<lparr>references :=
                [Reference SlideStyleReference ''Slide-1.iwa.yaml'' empty_image_style_object]\<rparr>)]"
  by code_simp

text \<open>
  C7, amended. A style object (tag \<^verbatim>\<open>KN.SlideStyleArchive\<close>) whose fill has no
  \<^verbatim>\<open>image\<close> entry, or that has no fill or no slide properties at all, is visited
  and leaves the dictionary as it is: nothing is attached and nothing is raised. A style
  object whose fill holds an \<^verbatim>\<open>image\<close> dictionary without \<^verbatim>\<open>imagedata\<close>, or
  whose \<^verbatim>\<open>imagedata\<close> has no \<^verbatim>\<open>identifier\<close>, raises nothing either; its
  identifier is the default 0, so nothing is attached unless 0 is a key of the dictionary,
  and then the style reference is attached to the image under key 0.
\<close>

theorem style_without_image_ignored:
  "(map_of kvs ''_pbtype'' = Some (YScalar (PStr ''KN.SlideStyleArchive''))
      \<and> (map_of kvs ''slideProperties'' = None
          \<or> (\<exists>sp'. map_of kvs ''slideProperties'' = Some (YDict sp')
                \<and> (map_of sp' ''fill'' = None
                    \<or> (\<exists>fl'. map_of sp' ''fill'' = Some (YDict fl') \<and> map_of fl' ''image'' = None))))
    \<longrightarrow> scan_object yf (YDict kvs) d = Inr d)
   \<and> (map_of kvs ''_pbtype'' = Some (YScalar (PStr ''KN.SlideStyleArchive''))
      \<and> map_of kvs ''slideProperties'' = Some (YDict sp)
      \<and> map_of sp ''fill'' = Some (YDict fl)
      \<and> map_of fl ''image'' = Some (YDict im)
      \<and> (map_of im ''imagedata'' = None
          \<or> (\<exists>idt. map_of im ''imagedata'' = Some (YDict idt) \<and> map_of idt ''identifier'' = None))
    \<longrightarrow> scan_object yf (YDict kvs) d =
          Inr (if map_of d (PInt 0) \<noteq> None
               then dict_update (PInt 0) (add_slide_style_reference yf (YDict kvs)) d else d))"
proof (intro conjI impI)
  assume a: "map_of kvs ''_pbtype'' = Some (YScalar (PStr ''KN.SlideStyleArchive''))
      \<and> (map_of kvs ''slideProperties'' = None
          \<or> (\<exists>sp'. map_of kvs ''slideProperties'' = Some (YDict sp')
                \<and> (map_of sp' ''fill'' = None
                    \<or> (\<exists>fl'. map_of sp' ''fill'' = Some (YDict fl') \<and> map_of fl' ''image'' = None))))"
  then have "bind_err (style_fill (YDict kvs)) (py_contains ''image'') = Inr False"
    using no_image_path_guard [of kvs] by blast
  with a show "scan_object yf (YDict kvs) d = Inr d"
    by (simp add: scan_object_style_no_image)
next
  assume a: "map_of kvs ''_pbtype'' = Some (YScalar (PStr ''KN.SlideStyleArchive''))
      \<and> map_of kvs ''slideProperties'' = Some (YDict sp)
      \<and> map_of sp ''fill'' = Some (YDict fl)
      \<and> map_of fl ''image'' = Some (YDict im)
      \<and> (map_of im ''imagedata'' = None
          \<or> (\<exists>idt. map_of im ''imagedata'' = Some (YDict idt) \<and> map_of idt ''identifier'' = None))"
  then have z: "style_identifier (YDict kvs) = Inr (YScalar (PInt 0))"
    and g: "bind_err (style_fill (YDict kvs)) (py_contains ''image'') = Inr True"
    using style_identifier_default [of kvs sp fl im] by blast+
  from a z g show "scan_object yf (YDict kvs) d =
          Inr (if map_of d (PInt 0) \<noteq> None
               then dict_update (PInt 0) (add_slide_style_reference yf (YDict kvs)) d else d)"
    by (simp add: scan_object_style)
qed

theorem style_without_image_ignored_witness:
  "scan_object ''Slide-1.iwa.yaml'' color_style_object (images_dict small_kf) = Inr (images_dict small_kf)
   \<and> scan_object ''Slide-1.iwa.yaml'' bare_style_object (images_dict small_kf) = Inr (images_dict small_kf)
   \<and> map_of (images_dict small_kf) (PInt 0) = None
   \<and> scan_object ''Slide-1.iwa.yaml'' empty_image_style_object (images_dict small_kf)
       = Inr (images_dict small_kf)"
  using style_without_image_ignored
          [of "[(''_pbtype'', YScalar (PStr ''KN.SlideStyleArchive'')),
                (''slideProperties'',
                   YDict [(''fill'', YDict [(''color'', YDict [(''model'', YScalar (PStr ''rgb''))])])])]"
              "''Slide-1.iwa.yaml''" "images_dict small_kf" "[]" "[]" "[]"]
        style_without_image_ignored
          [of "[(''_pbtype'', YScalar (PStr ''KN.SlideStyleArchive''))]"
              "''Slide-1.iwa.yaml''" "images_dict small_kf" "[]" "[]" "[]"]
        style_without_image_ignored
          [of "[(''_pbtype'', YScalar (PStr ''KN.SlideStyleArchive'')),
                (''slideProperties'', YDict [(''fill'', YDict [(''image'', YDict [])])])]"
              "''Slide-1.iwa.yaml''" "images_dict small_kf"
              "[(''fill'', YDict [(''image'', YDict [])])]" "[(''image'', YDict [])]" "[]"]
  by (simp add: color_style_object_def bare_style_object_def empty_image_style_object_def
        small_kf_def)

section \<open>Objects without an identifier field\<close>

text \<open>
  C10, as stated, fails for the style shape. A style object without slide properties has
  no link of the nested path; 0 is a key of the dictionary; the guard of line 180 skips
  the object before any identifier is resolved, and nothing is attached.
\<close>

theorem missing_identifier_counterexample:
  "map_of [(PInt 0, png_image)] (PInt 0) \<noteq> None
   \<and> py_getitem bare_style_object ''_pbtype'' = Inr (YScalar (PStr ''KN.SlideStyleArchive''))
   \<and> py_get bare_style_object ''slideProperties'' (YDict []) = Inr (YDict [])
   \<and> scan_object ''Slide-1.iwa.yaml'' bare_style_object [(PInt 0, png_image)]
       = Inr [(PInt 0, png_image)]"
  by (simp add: bare_style_object_def scan_object_def scan_direct_def scan_style_def
        style_fill_def bind_err_def)

text \<open>
  C10, amended. A direct object without \<^verbatim>\<open>data\<close> or without
  \<^verbatim>\<open>data.identifier\<close>, and a style object whose fill holds an \<^verbatim>\<open>image\<close>
  dictionary without \<^verbatim>\<open>imagedata\<close> or without its \<^verbatim>\<open>identifier\<close>, resolve to
  the default 0, and a reference is attached exactly when 0 is a key of the dictionary.
  A style object without slide properties, without fill or without \<^verbatim>\<open>image\<close> in
  the fill attaches nothing, whether 0 is a key or not. Attaching appends the reference
  to the image stored under key 0.
\<close>

theorem missing_identifier_default:
  "(map_of kvs ''_pbtype'' = Some (YScalar (PStr ''TSD.ImageArchive''))
      \<and> (map_of kvs ''data'' = None
          \<or> (\<exists>dt. map_of kvs ''data'' = Some (YDict dt) \<and> map_of dt ''identifier'' = None))
    \<longrightarrow> direct_identifier (YDict kvs) = Inr (YScalar (PInt 0))
        \<and> scan_object yf (YDict kvs) d =
            Inr (if map_of d (PInt 0) \<noteq> None
                 then dict_update (PInt 0) (add_slide_reference yf (YDict kvs)) d else d))
   \<and> (map_of kvs ''_pbtype'' = Some (YScalar (PStr ''KN.SlideStyleArchive''))
      \<and> map_of kvs ''slideProperties'' = Some (YDict sp)
      \<and> map_of sp ''fill'' = Some (YDict fl)
      \<and> map_of fl ''image'' = Some (YDict im)
      \<and> (map_of im ''imagedata'' = None
          \<or> (\<exists>idt. map_of im ''imagedata'' = Some (YDict idt) \<and> map_of idt ''identifier'' = None))
    \<longrightarrow> style_identifier (YDict kvs) = Inr (YScalar (PInt 0))
        \<and> scan_object yf (YDict kvs) d =
            Inr (if map_of d (PInt 0) \<noteq> None
                 then dict_update (PInt 0) (add_slide_style_reference yf (YDict kvs)) d else d))
   \<and> (map_of kvs ''_pbtype'' = Some (YScalar (PStr ''KN.SlideStyleArchive''))
      \<and> (map_of kvs ''slideProperties'' = None
          \<or> (\<exists>sp'. map_of kvs ''slideProperties'' = Some (YDict sp')
                \<and> (map_of sp' ''fill'' = None
                    \<or> (\<exists>fl'. map_of sp' ''fill'' = Some (YDict fl') \<and> map_of fl' ''image'' = None))))
    \<longrightarrow> scan_object yf (YDict kvs) d = Inr d)
   \<and> (map_of d (PInt 0) = Some img
    \<longrightarrow> map_of (dict_update (PInt 0) (add_slide_reference yf (YDict kvs)) d) (PInt 0)
          = Some (img\<lparr>references := references img @ [Reference SlideReference yf (YDict kvs)]\<rparr>)
        \<and> map_of (dict_update (PInt 0) (add_slide_style_reference yf (YDict kvs)) d) (PInt 0)
          = Some (img\<lparr>references := references img @ [Reference SlideStyleReference yf (YDict kvs)]\<rparr>))"
proof (intro conjI impI)
  assume a: "map_of kvs ''_pbtype'' = Some (YScalar (PStr ''TSD.ImageArchive''))
      \<and> (map_of kvs ''data'' = None
          \<or> (\<exists>dt. map_of kvs ''data'' = Some (YDict dt) \<and> map_of dt ''identifier'' = None))"
  then show z: "direct_identifier (YDict kvs) = Inr (YScalar (PInt 0))"
    by (simp add: direct_identifier_default)
  from a z show "scan_object yf (YDict kvs) d =
            Inr (if map_of d (PInt 0) \<noteq> None
                 then dict_update (PInt 0) (add_slide_reference yf (YDict kvs)) d else d)"
    by (simp add: scan_object_direct)
next
  assume a: "map_of kvs ''_pbtype'' = Some (YScalar (PStr ''KN.SlideStyleArchive''))
      \<and> map_of kvs ''slideProperties'' = Some (YDict sp)
      \<and> map_of sp ''fill'' = Some (YDict fl)
      \<and> map_of fl ''image'' = Some (YDict im)
      \<and> (map_of im ''imagedata'' = None
          \<or> (\<exists>idt. map_of im ''imagedata'' = Some (YDict idt) \<and> map_of idt ''identifier'' = None))"
  then have z: "style_identifier (YDict kvs) = Inr (YScalar (PInt 0))"
    and g: "bind_err (style_fill (YDict kvs)) (py_contains ''image'') = Inr True"
    using style_identifier_default [of kvs sp fl im] by blast+
  show "style_identifier (YDict kvs) = Inr (YScalar (PInt 0))" by (rule z)
  from a z g show "scan_object yf (YDict kvs) d =
            Inr (if map_of d (PInt 0) \<noteq> None
                 then dict_update (PInt 0) (add_slide_style_reference yf (YDict kvs)) d else d)"
    by (simp add: scan_object_style)
next
  assume a: "map_of kvs ''_pbtype'' = Some (YScalar (PStr ''KN.SlideStyleArchive''))
      \<and> (map_of kvs ''slideProperties'' = None
          \<or> (\<exists>sp'. map_of kvs ''slideProperties'' = Some (YDict sp')
                \<and> (map_of sp' ''fill'' = None
                    \<or> (\<exists>fl'. map_of sp' ''fill'' = Some (YDict fl') \<and> map_of fl' ''image'' = None))))"
  then have "bind_err (style_fill (YDict kvs)) (py_contains ''image'') = Inr False"
    using no_image_path_guard [of kvs] by blast
  with a show "scan_object yf (YDict kvs) d = Inr d"
    by (simp add: scan_object_style_no_image)
next
  assume "map_of d (PInt 0) = Some img"
  then show "map_of (dict_update (PInt 0) (add_slide_reference yf (YDict kvs)) d) (PInt 0)
          = Some (img\<lparr>references := references img @ [Reference SlideReference yf (YDict kvs)]\<rparr>)"
    by (simp add: map_of_dict_update add_slide_reference_def)
next
  assume "map_of d (PInt 0) = Some img"
  then show "map_of (dict_update (PInt 0) (add_slide_style_reference yf (YDict kvs)) d) (PInt 0)
          = Some (img\<lparr>references := references img @ [Reference SlideStyleReference yf (YDict kvs)]\<rparr>)"
    by (simp add: map_of_dict_update add_slide_style_reference_def)
qed

theorem missing_identifier_default_witness:
  "scan_object ''Slide-1.iwa.yaml'' bare_image_object [(PInt 0, png_image)]
     = Inr [(PInt 0, png_image\<lparr>references :=
              [Reference SlideReference ''Slide-1.iwa.yaml'' bare_image_object]\<rparr>)]
   \<and> scan_object ''Slide-1.iwa.yaml'' bare_image_object [(PInt 2, png_image)]
     = Inr [(PInt 2, png_image)]
   \<and> scan_object ''Slide-1.iwa.yaml'' empty_image_style_object [(PInt 0, png_image)]
     = Inr [(PInt 0, png_image\<lparr>references :=
              [Reference SlideStyleReference ''Slide-1.iwa.yaml'' empty_image_style_object]\<rparr>)]
   \<and> scan_object ''Slide-1.iwa.yaml'' bare_style_object [(PInt 0, png_image)]
     = Inr [(PInt 0, png_image)]"
  using missing_identifier_default
          [of "[(''_pbtype'', YScalar (PStr ''TSD.ImageArchive''))]" "''Slide-1.iwa.yaml''"
              "[(PInt 0, png_image)]" "[]" "[]" "[]" png_image]
        missing_identifier_default
          [of "[(''_pbtype'', YScalar (PStr ''TSD.ImageArchive''))]" "''Slide-1.iwa.yaml''"
              "[(PInt 2, png_image)]" "[]" "[]" "[]" png_image]
        missing_identifier_default
          [of "[(''_pbtype'', YScalar (PStr ''KN.SlideStyleArchive'')),
                (''slideProperties'', YDict [(''fill'', YDict [(''image'', YDict [])])])]"
              "''Slide-1.iwa.yaml''" "[(PInt 0, png_image)]"
              "[(''fill'', YDict [(''image'', YDict [])])]" "[(''image'', YDict [])]" "[]" png_image]
        missing_identifier_default
          [of "[(''_pbtype'', YScalar (PStr ''KN.SlideStyleArchive''))]" "''Slide-1.iwa.yaml''"
              "[(PInt 0, png_image)]" "[]" "[]" "[]" png_image]
  by (simp add: bare_image_object_def empty_image_style_object_def bare_style_object_def
        dict_update_def add_slide_reference_def add_slide_style_reference_def png_image_def)

section \<open>Warnings of a run\<close>

lemma fst_run_bind:
  "fst (run_bind m f) = fst m @ (case snd m of Inl e \<Rightarrow> [] | Inr x \<Rightarrow> fst (f x))"
  by (cases m) (auto simp: run_bind_def split: sum.splits prod.splits)

lemma snd_run_bind:
  "snd (run_bind m f) = (case snd m of Inl e \<Rightarrow> Inl e | Inr x \<Rightarrow> snd (f x))"
  by (cases m) (auto simp: run_bind_def split: sum.splits prod.splits)

lemma warnings_of_append: "warnings_of (xs @ ys) = warnings_of xs @ warnings_of ys"
  by (induction xs rule: warnings_of.induct) simp_all

lemma warnings_of_map_Warn: "warnings_of (map Warn ws) = ws"
  by (induction ws) simp_all

lemma warnings_of_run_bind:
  "warnings_of (fst m) = [] \<Longrightarrow> (\<And>x. warnings_of (fst (f x)) = []) \<Longrightarrow>
   warnings_of (fst (run_bind m f)) = []"
  by (simp add: fst_run_bind warnings_of_append split: sum.splits)

lemma warnings_of_stage_loop:
  "(\<And>k. warnings_of [ev k] = []) \<Longrightarrow> warnings_of (fst (stage_loop ev f ks d)) = []"
proof (induction ks arbitrary: d)
  case Nil
  then show ?case by simp
next
  case (Cons k ks)
  have step: "warnings_of (ev k # evs) = warnings_of evs" for evs
    using Cons.prems [of k] warnings_of_append [of "[ev k]" evs] by simp
  show ?case
    using Cons.IH [OF Cons.prems] Cons.prems [of k]
    by (simp add: step case_prod_beta split: option.splits sum.splits)
qed

lemma warnings_of_summarize: "warnings_of (fst (summarize st a b)) = []"
  by (simp add: summarize_def split: sum.splits)

lemma warnings_of_convert_tiffs: "warnings_of (fst (convert_tiffs ops ks d)) = []"
  by (simp add: convert_tiffs_def warnings_of_run_bind warnings_of_stage_loop
        warnings_of_summarize emit_def)

lemma warnings_of_convert_pngs: "warnings_of (fst (convert_pngs ops s ks d)) = []"
  by (simp add: convert_pngs_def warnings_of_run_bind warnings_of_stage_loop
        warnings_of_summarize emit_def)

lemma warnings_of_resize_images: "warnings_of (fst (resize_images ops s d)) = []"
  by (simp add: resize_images_def warnings_of_run_bind warnings_of_stage_loop
        warnings_of_summarize)

lemma warnings_of_optimize_images: "warnings_of (fst (optimize_images ops s d)) = []"
  by (simp add: optimize_images_def warnings_of_run_bind warnings_of_stage_loop
        warnings_of_summarize)

lemma warnings_of_finish: "warnings_of (fst (finish kf s d)) = []"
  by (simp add: finish_def warnings_of_run_bind warnings_of_summarize emit_def)

lemma warnings_of_pipeline: "warnings_of (fst (pipeline ops kf s)) = []"
  unfolding pipeline_def
  by (intro warnings_of_run_bind warnings_of_convert_tiffs warnings_of_convert_pngs
        warnings_of_resize_images warnings_of_optimize_images warnings_of_finish)
     (simp_all add: emit_def lift_err_def)

lemma warnings_of_slim_file:
  "warnings_of (fst (slim_file ops kf quality args)) = quality_warnings (match_quality quality args)"
  by (simp add: slim_file_def Let_def fst_run_bind emit_def warnings_of_append
        warnings_of_map_Warn warnings_of_pipeline)

lemma snd_slim_file:
  "snd (slim_file ops kf quality args) = snd (pipeline ops kf (match_quality quality args))"
  by (simp add: slim_file_def Let_def snd_run_bind emit_def)

text \<open>
  C4. In every run the resize warning is logged once if the effective resize factor is
  below 2.0 and not at all otherwise, and the JPEG warning is logged once if the effective
  JPEG quality is below 80 and not at all otherwise. At exactly 2.0 and 80 (which is also
  preset 1) there is no warning; preset 3 logs both, once each. Logging a warning never
  ends the run: its outcome is the outcome of the pipeline under the effective settings,
  and preset 3 on a single record of 500000 bytes whose stages succeed runs to completion.
\<close>

theorem quality_warning_thresholds:
  "count_list (warnings_of (fst (slim_file ops kf quality args))) ResizeFactorWarning
     = (if float_lt (resize_factor (match_quality quality args)) (Finite 2) then 1 else 0)
   \<and> count_list (warnings_of (fst (slim_file ops kf quality args))) JpegQualityWarning
     = (if jpeg_compression (match_quality quality args) < 80 then 1 else 0)
   \<and> warnings_of (fst (slim_file ops kf 0 (args\<lparr>resize_factor := Finite 2, jpeg_compression := 80\<rparr>))) = []
   \<and> warnings_of (fst (slim_file ops kf 1 args)) = []
   \<and> warnings_of (fst (slim_file ops kf 3 args)) = [ResizeFactorWarning, JpegQualityWarning]
   \<and> snd (slim_file ops kf quality args) = snd (pipeline ops kf (match_quality quality args))
   \<and> snd (slim_file halving_ops png_kf 3 default_settings)
       = Inr [(PInt 2, png_image\<lparr>filename_suffix := ''.jpeg'', size_converted := 250000,
                size_resized := 250000, size_optimized := 125000,
                references := [Reference SlideStyleReference ''Slide-1.iwa.yaml'' (style_object 2)]\<rparr>)]"
proof (intro conjI)
  show "snd (slim_file halving_ops png_kf 3 default_settings)
       = Inr [(PInt 2, png_image\<lparr>filename_suffix := ''.jpeg'', size_converted := 250000,
                size_resized := 250000, size_optimized := 125000,
                references := [Reference SlideStyleReference ''Slide-1.iwa.yaml'' (style_object 2)]\<rparr>)]"
    by code_simp
qed (simp_all add: warnings_of_slim_file snd_slim_file quality_warnings_def match_quality_def)

section \<open>Size summaries\<close>

text \<open>
  C3. With an empty image dictionary the TIFF and PNG summaries are skipped by the guards
  of lines 102 and 131, but the resize summary of line 200 is not guarded: both totals are
  0 and the division raises. The run ends there, after unpacking, for every quality
  selector and all settings.
\<close>

theorem empty_index_division_by_zero:
  "slim_file ops (kf\<lparr>images_dict := [], index_files := []\<rparr>) quality args
     = (map Warn (quality_warnings (match_quality quality args)) @ [Unpack], Inl ZeroDivisionError)
   \<and> slim_file halving_ops empty_kf 0 default_settings = ([Unpack], Inl ZeroDivisionError)"
proof
  show "slim_file ops (kf\<lparr>images_dict := [], index_files := []\<rparr>) quality args
     = (map Warn (quality_warnings (match_quality quality args)) @ [Unpack], Inl ZeroDivisionError)"
    by (simp add: slim_file_def Let_def pipeline_def convert_tiffs_def convert_pngs_def
        tiffies_of_def pngs_of_def scan_references_def lift_err_def resize_images_def
        summarize_def reduction_def py_truediv_def bind_err_def run_bind_def emit_def)
  show "slim_file halving_ops empty_kf 0 default_settings = ([Unpack], Inl ZeroDivisionError)"
    by code_simp
qed

section \<open>Scanning appends references\<close>

lemma extends_image_iff:
  "extends_image P img img' \<longleftrightarrow>
     (\<exists>new. img' = img\<lparr>references := references img @ new\<rparr> \<and> list_all P new)"
proof
  assume a: "extends_image P img img'"
  let ?new = "drop (length (references img)) (references img')"
  from a have r: "references img' = references img @ ?new"
    by (metis append_take_drop_id extends_image_def)
  from a have "img'\<lparr>references := references img\<rparr> = img"
    by (simp add: extends_image_def)
  then have "img' = img\<lparr>references := references img'\<rparr>"
    by (cases img, cases img') auto
  with r a show "\<exists>new. img' = img\<lparr>references := references img @ new\<rparr> \<and> list_all P new"
    unfolding extends_image_def by metis
next
  assume "\<exists>new. img' = img\<lparr>references := references img @ new\<rparr> \<and> list_all P new"
  then show "extends_image P img img'"
    by (auto simp: extends_image_def)
qed

lemma extends_image_refl: "extends_image P img img"
  by (simp add: extends_image_def)

lemma extends_image_trans:
  "extends_image P a b \<Longrightarrow> extends_image P b c \<Longrightarrow> extends_image P a c"
  unfolding extends_image_iff by auto

lemma extends_image_mono:
  "(\<And>r. P r \<Longrightarrow> Q r) \<Longrightarrow> extends_image P a b \<Longrightarrow> extends_image Q a b"
  unfolding extends_image_iff by (auto simp: list_all_iff)

lemma extends_images_refl: "extends_images P d d"
  by (simp add: extends_images_def list_all2_refl extends_image_refl)

lemma extends_images_trans:
  assumes "extends_images P a b" and "extends_images P b c"
  shows "extends_images P a c"
  using assms unfolding extends_images_def
  by (rule list_all2_trans [rotated]) (auto intro: extends_image_trans)

lemma extends_images_mono:
  "(\<And>r. P r \<Longrightarrow> Q r) \<Longrightarrow> extends_images P a b \<Longrightarrow> extends_images Q a b"
  unfolding extends_images_def
  by (erule list_all2_mono) (auto intro: extends_image_mono)

lemma extends_images_keys: "extends_images P d d' \<Longrightarrow> map fst d' = map fst d"
  unfolding extends_images_def
  by (induction d d' rule: list_all2_induct) auto

lemma dict_update_extends:
  "(\<And>img. extends_image P img (f img)) \<Longrightarrow> extends_images P d (dict_update k f d)"
  by (induction d) (auto simp: extends_images_def dict_update_def extends_image_refl)

lemma add_slide_reference_extends:
  "extends_image (\<lambda>r. ref_path r = yf) img (add_slide_reference yf obj img)"
  by (simp add: extends_image_def add_slide_reference_def)

lemma add_slide_style_reference_extends:
  "extends_image (\<lambda>r. ref_path r = yf) img (add_slide_style_reference yf obj img)"
  by (simp add: extends_image_def add_slide_style_reference_def)

lemma scan_direct_extends:
  "scan_direct yf obj d = Inr d' \<Longrightarrow> extends_images (\<lambda>r. ref_path r = yf) d d'"
  by (auto simp: scan_direct_def bind_err_def extends_images_refl
        dict_update_extends add_slide_reference_extends
        split: sum.splits if_splits yaml.splits)

lemma scan_style_extends:
  "scan_style yf obj d = Inr d' \<Longrightarrow> extends_images (\<lambda>r. ref_path r = yf) d d'"
  by (auto simp: scan_style_def bind_err_def extends_images_refl
        dict_update_extends add_slide_style_reference_extends
        split: sum.splits if_splits yaml.splits)

lemma scan_object_extends:
  "scan_object yf obj d = Inr d' \<Longrightarrow> extends_images (\<lambda>r. ref_path r = yf) d d'"
  by (auto simp: scan_object_def bind_err_def split: sum.splits
        intro: extends_images_trans scan_direct_extends scan_style_extends)

lemma py_for_invariant:
  assumes "\<And>s. R s s"
    and "\<And>a b c. R a b \<Longrightarrow> R b c \<Longrightarrow> R a c"
    and "\<And>x s s'. x \<in> set xs \<Longrightarrow> body x s = Inr s' \<Longrightarrow> R s s'"
  shows "py_for xs body s = Inr s' \<Longrightarrow> R s s'"
  using assms(3)
proof (induction xs arbitrary: s)
  case Nil
  then show ?case using assms(1) by simp
next
  case (Cons x xs)
  from Cons.prems(1) obtain s1 where 1: "body x s = Inr s1" and 2: "py_for xs body s1 = Inr s'"
    by (auto split: sum.splits)
  have "R s s1"
    by (rule Cons.prems(2) [OF _ 1]) simp
  moreover have "R s1 s'"
  proof (rule Cons.IH [OF 2])
    fix y t t' assume "y \<in> set xs" "body y t = Inr t'"
    then show "R t t'" using Cons.prems(2) [of y t t'] by simp
  qed
  ultimately show ?case using assms(2) by blast
qed

lemma py_for_append:
  "py_for (xs @ ys) body s = bind_err (py_for xs body s) (py_for ys body)"
  by (induction xs arbitrary: s) (auto simp: bind_err_def split: sum.splits)

lemma scan_archive_extends:
  "scan_archive yf archive d = Inr d' \<Longrightarrow> extends_images (\<lambda>r. ref_path r = yf) d d'"
  by (auto simp: scan_archive_def bind_err_def split: sum.splits
        elim!: py_for_invariant [rotated 3]
        intro: extends_images_refl extends_images_trans scan_object_extends)

lemma scan_chunk_extends:
  "scan_chunk yf chunk d = Inr d' \<Longrightarrow> extends_images (\<lambda>r. ref_path r = yf) d d'"
  by (auto simp: scan_chunk_def bind_err_def split: sum.splits
        elim!: py_for_invariant [rotated 3]
        intro: extends_images_refl extends_images_trans scan_archive_extends)

lemma scan_file_extends:
  "scan_file f d = Inr d' \<Longrightarrow> extends_images (\<lambda>r. ref_path r = path f) d d'"
  by (auto simp: scan_file_def bind_err_def split: sum.splits
        elim!: py_for_invariant [rotated 3]
        intro: extends_images_refl extends_images_trans scan_chunk_extends)

lemma scan_references_extends:
  "scan_references fs d = Inr d' \<Longrightarrow>
   extends_images (\<lambda>r. ref_path r \<in> set (map path fs)) d d'"
  unfolding scan_references_def
proof (erule py_for_invariant [rotated 3])
  fix x s s' assume "x \<in> set fs" "scan_file x s = Inr s'"
  then show "extends_images (\<lambda>r. ref_path r \<in> set (map path fs)) s s'"
    by (auto intro: extends_images_mono [OF _ scan_file_extends])
qed (auto intro: extends_images_refl extends_images_trans)

section \<open>Order of the fragments\<close>

text \<open>
  C8, as stated, fails: the fragments are scanned in the order of the directory listing,
  which is not sorted. With \<^verbatim>\<open>b.iwa.yaml\<close> listed before \<^verbatim>\<open>a.iwa.yaml\<close> the
  reference from \<^verbatim>\<open>b\<close> is attached first, and listing the same two fragments the
  other way round attaches the references the other way round.
\<close>

theorem listing_order_counterexample:
  "map path listing_b_a = [''b.iwa.yaml'', ''a.iwa.yaml'']
   \<and> \<not> sorted (map path listing_b_a)
   \<and> scan_references listing_b_a [(PInt 1, tiff_image)]
       = Inr [(PInt 1, tiff_image\<lparr>references :=
                [Reference SlideReference ''b.iwa.yaml'' (image_object 1),
                 Reference SlideReference ''a.iwa.yaml'' (image_object 1)]\<rparr>)]
   \<and> scan_references (rev listing_b_a) [(PInt 1, tiff_image)]
       = Inr [(PInt 1, tiff_image\<lparr>references :=
                [Reference SlideReference ''a.iwa.yaml'' (image_object 1),
                 Reference SlideReference ''b.iwa.yaml'' (image_object 1)]\<rparr>)]"
proof (intro conjI)
  show "\<not> sorted (map path listing_b_a)"
    by (simp add: listing_b_a_def fragment_of_def less_eq_char_def less_char_def
          list_le_def list_less_def)
qed code_simp+

text \<open>
  C8, amended. The fragments are scanned in the order of the listing, without sorting:
  scanning a listing \<open>fs @ gs\<close> is scanning \<open>fs\<close> and then, if that raised nothing,
  \<open>gs\<close> on the result. Whatever the later fragments \<open>gs\<close> attach is appended behind
  the references attached before, which stay in place, and carries the path of a fragment
  of \<open>gs\<close>. The scan is a function of the listing, so the same listing gives the same
  references in the same order.
\<close>

theorem scan_follows_listing:
  "scan_references (fs @ gs) d = bind_err (scan_references fs d) (scan_references gs)
   \<and> (scan_references fs d = Inr d1 \<and> scan_references gs d1 = Inr d2
      \<longrightarrow> scan_references (fs @ gs) d = Inr d2
          \<and> extends_images (\<lambda>r. ref_path r \<in> set (map path gs)) d1 d2)"
proof (intro conjI impI)
  show c: "scan_references (fs @ gs) d = bind_err (scan_references fs d) (scan_references gs)"
    unfolding scan_references_def by (rule py_for_append)
  assume a: "scan_references fs d = Inr d1 \<and> scan_references gs d1 = Inr d2"
  then show "scan_references (fs @ gs) d = Inr d2"
    by (simp add: c bind_err_def)
  from a show "extends_images (\<lambda>r. ref_path r \<in> set (map path gs)) d1 d2"
    by (simp only: scan_references_extends)
qed

theorem scan_follows_listing_witness:
  "scan_references [fragment_of ''b.iwa.yaml'' [image_object 1]] [(PInt 1, tiff_image)]
     = Inr [(PInt 1, tiff_image\<lparr>references :=
              [Reference SlideReference ''b.iwa.yaml'' (image_object 1)]\<rparr>)]
   \<and> scan_references [fragment_of ''a.iwa.yaml'' [image_object 1]]
        [(PInt 1, tiff_image\<lparr>references :=
              [Reference SlideReference ''b.iwa.yaml'' (image_object 1)]\<rparr>)]
     = Inr [(PInt 1, tiff_image\<lparr>references :=
              [Reference SlideReference ''b.iwa.yaml'' (image_object 1),
               Reference SlideReference ''a.iwa.yaml'' (image_object 1)]\<rparr>)]
   \<and> scan_references listing_b_a [(PInt 1, tiff_image)]
     = Inr [(PInt 1, tiff_image\<lparr>references :=
              [Reference SlideReference ''b.iwa.yaml'' (image_object 1),
               Reference SlideReference ''a.iwa.yaml'' (image_object 1)]\<rparr>)]
   \<and> extends_images (\<lambda>r. ref_path r \<in> set (map path [fragment_of ''a.iwa.yaml'' [image_object 1]]))
        [(PInt 1, tiff_image\<lparr>references :=
              [Reference SlideReference ''b.iwa.yaml'' (image_object 1)]\<rparr>)]
        [(PInt 1, tiff_image\<lparr>references :=
              [Reference SlideReference ''b.iwa.yaml'' (image_object 1),
               Reference SlideReference ''a.iwa.yaml'' (image_object 1)]\<rparr>)]"
proof -
  have 1: "scan_references [fragment_of ''b.iwa.yaml'' [image_object 1]] [(PInt 1, tiff_image)]
     = Inr [(PInt 1, tiff_image\<lparr>references :=
              [Reference SlideReference ''b.iwa.yaml'' (image_object 1)]\<rparr>)]"
    by code_simp
  have 2: "scan_references [fragment_of ''a.iwa.yaml'' [image_object 1]]
        [(PInt 1, tiff_image\<lparr>references :=
              [Reference SlideReference ''b.iwa.yaml'' (image_object 1)]\<rparr>)]
     = Inr [(PInt 1, tiff_image\<lparr>references :=
              [Reference SlideReference ''b.iwa.yaml'' (image_object 1),
               Reference SlideReference ''a.iwa.yaml'' (image_object 1)]\<rparr>)]"
    by code_simp
  note t = scan_follows_listing
            [of "[fragment_of ''b.iwa.yaml'' [image_object 1]]"
                "[fragment_of ''a.iwa.yaml'' [image_object 1]]"
                "[(PInt 1, tiff_image)]"
                "[(PInt 1, tiff_image\<lparr>references :=
                    [Reference SlideReference ''b.iwa.yaml'' (image_object 1)]\<rparr>)]"
                "[(PInt 1, tiff_image\<lparr>references :=
                    [Reference SlideReference ''b.iwa.yaml'' (image_object 1),
                     Reference SlideReference ''a.iwa.yaml'' (image_object 1)]\<rparr>)]"]
  from t 1 2 have 3:
    "scan_references ([fragment_of ''b.iwa.yaml'' [image_object 1]] @
                      [fragment_of ''a.iwa.yaml'' [image_object 1]]) [(PInt 1, tiff_image)]
       = Inr [(PInt 1, tiff_image\<lparr>references :=
                [Reference SlideReference ''b.iwa.yaml'' (image_object 1),
                 Reference SlideReference ''a.iwa.yaml'' (image_object 1)]\<rparr>)]
     \<and> extends_images (\<lambda>r. ref_path r \<in> set (map path [fragment_of ''a.iwa.yaml'' [image_object 1]]))
        [(PInt 1, tiff_image\<lparr>references :=
              [Reference SlideReference ''b.iwa.yaml'' (image_object 1)]\<rparr>)]
        [(PInt 1, tiff_image\<lparr>references :=
              [Reference SlideReference ''b.iwa.yaml'' (image_object 1),
               Reference SlideReference ''a.iwa.yaml'' (image_object 1)]\<rparr>)]"
    by blast
  from 3 have 4: "scan_references listing_b_a [(PInt 1, tiff_image)]
       = Inr [(PInt 1, tiff_image\<lparr>references :=
                [Reference SlideReference ''b.iwa.yaml'' (image_object 1),
                 Reference SlideReference ''a.iwa.yaml'' (image_object 1)]\<rparr>)]"
    by (simp add: listing_b_a_def)
  from 1 2 3 4 show ?thesis by blast
qed

section \<open>The stage loops\<close>

lemma run_bind_Inr:
  "run_bind m f = (evs, Inr y) \<Longrightarrow>
   \<exists>e1 x e2. m = (e1, Inr x) \<and> f x = (e2, Inr y) \<and> evs = e1 @ e2"
  by (cases m) (auto simp: run_bind_def split: sum.splits prod.splits)

lemma map_fst_dict_update: "map fst (dict_update k f d) = map fst d"
  by (induction d) (auto simp: dict_update_def)

lemma map_of_key: "k \<in> set (map fst d) \<Longrightarrow> \<exists>v. map_of d k = Some v"
  by (induction d) auto

lemma stage_loop_complete:
  "stage_loop ev f ks d = (evs, Inr d') \<Longrightarrow> set ks \<subseteq> set (map fst d) \<Longrightarrow>
   evs = map ev ks \<and> map fst d' = map fst d"
proof (induction ks arbitrary: d evs)
  case Nil
  then show ?case by simp
next
  case (Cons k ks)
  from Cons.prems(2) obtain img where img: "map_of d k = Some img"
    using map_of_key [of k d] by auto
  with Cons.prems(1) obtain img' where f: "f img = Inr img'"
    by (cases "f img") auto
  let ?d = "dict_update k (\<lambda>_. img') d"
  obtain evs1 r where rec: "stage_loop ev f ks ?d = (evs1, r)"
    by (cases "stage_loop ev f ks ?d")
  with Cons.prems(1) img f have e: "evs = ev k # evs1" and r: "r = Inr d'"
    by auto
  have "set ks \<subseteq> set (map fst ?d)"
    using Cons.prems(2) by (simp add: map_fst_dict_update)
  from Cons.IH [OF rec [unfolded r] this] e show ?case
    by (simp add: map_fst_dict_update)
qed

lemma stage_loop_events: "list_all (\<lambda>e. e \<in> ev ` set ks) (fst (stage_loop ev f ks d))"
proof (induction ks arbitrary: d)
  case Nil
  then show ?case by simp
next
  case (Cons k ks)
  have "list_all (\<lambda>e. e \<in> ev ` set (k # ks)) (fst (stage_loop ev f ks d'))" for d'
    using Cons.IH [of d'] by (auto simp: list_all_iff)
  then show ?case
    by (simp add: case_prod_beta split: option.splits sum.splits)
qed

lemma stage_loop_fails:
  "stage_loop ev f ks d = (evs, Inl e) \<Longrightarrow> \<exists>pre k. evs = pre @ [ev k]"
proof (induction ks arbitrary: d evs)
  case Nil
  then show ?case by simp
next
  case (Cons k ks)
  show ?case
  proof (cases "map_of d k")
    case None
    with Cons show ?thesis by simp
  next
    case (Some img)
    show ?thesis
    proof (cases "f img")
      case (Inl e')
      with Some Cons.prems have "evs = [] @ [ev k]" by simp
      then show ?thesis by blast
    next
      case (Inr img')
      obtain evs1 r where rec: "stage_loop ev f ks (dict_update k (\<lambda>_. img') d) = (evs1, r)"
        by (cases "stage_loop ev f ks (dict_update k (\<lambda>_. img') d)")
      with Some Inr Cons.prems have e: "evs = ev k # evs1" and r: "r = Inl e" by auto
      from Cons.IH [OF rec [unfolded r]] obtain pre k' where "evs1 = pre @ [ev k']" by blast
      with e have "evs = (ev k # pre) @ [ev k']" by simp
      then show ?thesis by blast
    qed
  qed
qed

lemma stage_loop_append_fail:
  "stage_loop ev f ks1 d = (evs, Inr d1) \<Longrightarrow> map_of d1 k = Some img \<Longrightarrow> f img = Inl e \<Longrightarrow>
   stage_loop ev f (ks1 @ k # ks2) d = (evs @ [ev k], Inl e)"
proof (induction ks1 arbitrary: d evs)
  case Nil
  then show ?case by simp
next
  case (Cons a ks1)
  show ?case
  proof (cases "map_of d a")
    case None
    with Cons show ?thesis by simp
  next
    case (Some ia)
    with Cons.prems(1) obtain ia' where fa: "f ia = Inr ia'"
      by (cases "f ia") auto
    obtain evs1 r where rec: "stage_loop ev f ks1 (dict_update a (\<lambda>_. ia') d) = (evs1, r)"
      by (cases "stage_loop ev f ks1 (dict_update a (\<lambda>_. ia') d)")
    with Some fa Cons.prems(1) have e: "evs = ev a # evs1" and r: "r = Inr d1" by auto
    from Cons.IH [OF rec [unfolded r] Cons.prems(2,3)] Some fa e show ?thesis
      by simp
  qed
qed

section \<open>Stage calls of a run that completes\<close>

lemma run_bind_emit_Nil: "run_bind (emit []) f = f ()"
  by (cases "f ()") (simp add: run_bind_def emit_def)

lemma filter_calls_map:
  "(\<And>k. is_stage_call (ev k)) \<Longrightarrow> filter is_stage_call (map ev ks) = map ev ks"
  by (induction ks) simp_all

lemma summarize_complete:
  "summarize st a b = (evs, Inr u) \<Longrightarrow> filter is_stage_call evs = []"
  by (auto simp: summarize_def split: sum.splits)

lemma tiffies_of_keys: "set (tiffies_of d) \<subseteq> set (map fst d)"
  by (auto simp: tiffies_of_def)

lemma pngs_of_keys: "set (pngs_of d) \<subseteq> set (map fst d)"
  by (auto simp: pngs_of_def)

lemma convert_loop_complete:
  assumes "run_bind (stage_loop (\<lambda>k. Convert k q) f ks d) (\<lambda>d'.
             run_bind (summarize st (a d') (b d')) (\<lambda>_.
             run_bind (emit [MetadataSave]) (\<lambda>_. ([], Inr d')))) = (evs, Inr d2)"
    and "set ks \<subseteq> set (map fst d)"
  shows "map fst d2 = map fst d \<and> filter is_stage_call evs = map (\<lambda>k. Convert k q) ks"
proof -
  from assms(1) obtain e1 d1 e2 where
    1: "stage_loop (\<lambda>k. Convert k q) f ks d = (e1, Inr d1)" and
    2: "run_bind (summarize st (a d1) (b d1)) (\<lambda>_.
          run_bind (emit [MetadataSave]) (\<lambda>_. ([], Inr d1))) = (e2, Inr d2)" and
    3: "evs = e1 @ e2"
    by (blast dest: run_bind_Inr)
  from 2 obtain e3 u e4 where
    4: "summarize st (a d1) (b d1) = (e3, Inr u)" and
    5: "run_bind (emit [MetadataSave]) (\<lambda>_. ([], Inr d1)) = (e4, Inr d2)" and
    6: "e2 = e3 @ e4"
    by (blast dest: run_bind_Inr)
  from 5 have 7: "e4 = [MetadataSave]" "d2 = d1"
    by (simp_all add: run_bind_def emit_def)
  from stage_loop_complete [OF 1 assms(2)] have 8: "e1 = map (\<lambda>k. Convert k q) ks" "map fst d1 = map fst d"
    by simp_all
  from summarize_complete [OF 4] 3 6 7 8 show ?thesis
    by (simp add: filter_calls_map)
qed

lemma convert_tiffs_complete:
  assumes "convert_tiffs ops ks d = (evs, Inr d')" and "set ks \<subseteq> set (map fst d)"
  shows "map fst d' = map fst d \<and> filter is_stage_call evs = map (\<lambda>k. Convert k None) ks"
proof (cases "ks = []")
  case True
  with assms(1) show ?thesis by (simp add: convert_tiffs_def)
next
  case False
  with assms(1) have
    "run_bind (stage_loop (\<lambda>k. Convert k None) (convert ops None) ks d) (\<lambda>d'.
       run_bind (summarize TiffStage
                   (sum_list (map size_original (dict_values d' ks)))
                   (sum_list (map size_converted (dict_values d' ks)))) (\<lambda>_.
       run_bind (emit [MetadataSave]) (\<lambda>_. ([], Inr d')))) = (evs, Inr d')"
    by (simp add: convert_tiffs_def)
  from convert_loop_complete [OF this assms(2)] show ?thesis .
qed

lemma convert_pngs_complete:
  assumes "convert_pngs ops s ks d = (evs, Inr d')" and "set ks \<subseteq> set (map fst d)"
  shows "map fst d' = map fst d
         \<and> filter is_stage_call evs =
             (if png_convert s then map (\<lambda>k. Convert k (Some (jpeg_compression s))) ks else [])"
proof (cases "ks \<noteq> [] \<and> png_convert s")
  case False
  with assms(1) show ?thesis by (auto simp: convert_pngs_def)
next
  case True
  with assms(1) have
    "run_bind (stage_loop (\<lambda>k. Convert k (Some (jpeg_compression s)))
                 (convert ops (Some (jpeg_compression s))) ks d) (\<lambda>d'.
       run_bind (summarize PngStage
                   (sum_list (map size_original (dict_values d' ks)))
                   (sum_list (map size_converted (dict_values d' ks)))) (\<lambda>_.
       run_bind (emit [MetadataSave]) (\<lambda>_. ([], Inr d')))) = (evs, Inr d')"
    by (simp add: convert_pngs_def)
  from convert_loop_complete [OF this assms(2)] True show ?thesis by simp
qed

lemma resize_images_complete:
  assumes "resize_images ops s d = (evs, Inr d')"
  shows "map fst d' = map fst d
         \<and> filter is_stage_call evs = map (\<lambda>k. Resize k (resize_factor s)) (map fst d)"
proof -
  from assms obtain e1 d1 e2 where
    1: "stage_loop (\<lambda>k. Resize k (resize_factor s)) (resize ops (resize_factor s)) (map fst d) d
          = (e1, Inr d1)" and
    2: "run_bind (summarize ResizeStage
                 (sum_list (map (\<lambda>kv. size_converted (snd kv)) d1))
                 (sum_list (map (\<lambda>kv. size_resized (snd kv)) d1))) (\<lambda>_. ([], Inr d1)) = (e2, Inr d')" and
    3: "evs = e1 @ e2"
    unfolding resize_images_def by (blast dest: run_bind_Inr)
  from 2 obtain e3 u e4 where
    4: "summarize ResizeStage
                 (sum_list (map (\<lambda>kv. size_converted (snd kv)) d1))
                 (sum_list (map (\<lambda>kv. size_resized (snd kv)) d1)) = (e3, Inr u)" and
    5: "([], Inr d1) = (e4, Inr d')" and 6: "e2 = e3 @ e4"
    by (blast dest: run_bind_Inr)
  from stage_loop_complete [OF 1] have 8:
    "e1 = map (\<lambda>k. Resize k (resize_factor s)) (map fst d)" "map fst d1 = map fst d"
    by simp_all
  from summarize_complete [OF 4] 3 5 6 8 show ?thesis
    by (simp add: filter_calls_map)
qed

lemma optimize_images_complete:
  assumes "optimize_images ops s d = (evs, Inr d')"
  shows "map fst d' = map fst d
         \<and> filter is_stage_call evs = map (\<lambda>k. Optimize k (jpeg_compression s)) (map fst d)"
proof -
  from assms obtain e1 d1 e2 where
    1: "stage_loop (\<lambda>k. Optimize k (jpeg_compression s)) (optimize ops (jpeg_compression s)) (map fst d) d
          = (e1, Inr d1)" and
    2: "run_bind (summarize OptimizeStage
                 (sum_list (map (\<lambda>kv. size_resized (snd kv)) d1))
                 (sum_list (map (\<lambda>kv. size_optimized (snd kv)) d1))) (\<lambda>_. ([], Inr d1)) = (e2, Inr d')" and
    3: "evs = e1 @ e2"
    unfolding optimize_images_def by (blast dest: run_bind_Inr)
  from 2 obtain e3 u e4 where
    4: "summarize OptimizeStage
                 (sum_list (map (\<lambda>kv. size_resized (snd kv)) d1))
                 (sum_list (map (\<lambda>kv. size_optimized (snd kv)) d1)) = (e3, Inr u)" and
    5: "([], Inr d1) = (e4, Inr d')" and 6: "e2 = e3 @ e4"
    by (blast dest: run_bind_Inr)
  from stage_loop_complete [OF 1] have 8:
    "e1 = map (\<lambda>k. Optimize k (jpeg_compression s)) (map fst d)" "map fst d1 = map fst d"
    by simp_all
  from summarize_complete [OF 4] 3 5 6 8 show ?thesis
    by (simp add: filter_calls_map)
qed

lemma finish_calls: "filter is_stage_call (fst (finish kf s d)) = []"
  by (simp add: finish_def fst_run_bind emit_def summarize_def split: sum.splits)

lemma pipeline_complete:
  assumes "pipeline ops kf s = (evs, Inr d')"
  shows "filter is_stage_call evs =
           map (\<lambda>k. Convert k None) (tiffies_of (images_dict kf)) @
           (if png_convert s
            then map (\<lambda>k. Convert k (Some (jpeg_compression s))) (pngs_of (images_dict kf)) else []) @
           map (\<lambda>k. Resize k (resize_factor s)) (map fst (images_dict kf)) @
           map (\<lambda>k. Optimize k (jpeg_compression s)) (map fst (images_dict kf))"
proof -
  let ?d = "images_dict kf"
  from assms obtain e0 u r0 where
    0: "emit [Unpack] = (e0, Inr u)" and
    r0: "run_bind (convert_tiffs ops (tiffies_of ?d) ?d) (\<lambda>d1.
         run_bind (convert_pngs ops s (pngs_of ?d) d1) (\<lambda>d2.
         run_bind (lift_err (scan_references (index_files kf) d2)) (\<lambda>d3.
         run_bind (resize_images ops s d3) (\<lambda>d4.
         run_bind (optimize_images ops s d4) (\<lambda>d5. finish kf s d5))))) = (r0, Inr d')" and
    e: "evs = e0 @ r0"
    unfolding pipeline_def by (blast dest: run_bind_Inr)
  from r0 obtain e1 d1 r1 where
    1: "convert_tiffs ops (tiffies_of ?d) ?d = (e1, Inr d1)" and
    r1: "run_bind (convert_pngs ops s (pngs_of ?d) d1) (\<lambda>d2.
         run_bind (lift_err (scan_references (index_files kf) d2)) (\<lambda>d3.
         run_bind (resize_images ops s d3) (\<lambda>d4.
         run_bind (optimize_images ops s d4) (\<lambda>d5. finish kf s d5)))) = (r1, Inr d')" and
    e1: "r0 = e1 @ r1"
    by (blast dest: run_bind_Inr)
  from r1 obtain e2 d2 r2 where
    2: "convert_pngs ops s (pngs_of ?d) d1 = (e2, Inr d2)" and
    r2: "run_bind (lift_err (scan_references (index_files kf) d2)) (\<lambda>d3.
         run_bind (resize_images ops s d3) (\<lambda>d4.
         run_bind (optimize_images ops s d4) (\<lambda>d5. finish kf s d5))) = (r2, Inr d')" and
    e2: "r1 = e2 @ r2"
    by (blast dest: run_bind_Inr)
  from r2 obtain e3 d3 r3 where
    3: "lift_err (scan_references (index_files kf) d2) = (e3, Inr d3)" and
    r3: "run_bind (resize_images ops s d3) (\<lambda>d4.
         run_bind (optimize_images ops s d4) (\<lambda>d5. finish kf s d5)) = (r3, Inr d')" and
    e3: "r2 = e3 @ r3"
    by (blast dest: run_bind_Inr)
  from r3 obtain e4 d4 r4 where
    4: "resize_images ops s d3 = (e4, Inr d4)" and
    r4: "run_bind (optimize_images ops s d4) (\<lambda>d5. finish kf s d5) = (r4, Inr d')" and
    e4: "r3 = e4 @ r4"
    by (blast dest: run_bind_Inr)
  from r4 obtain e5 d5 e6 where
    5: "optimize_images ops s d4 = (e5, Inr d5)" and
    6: "finish kf s d5 = (e6, Inr d')" and
    e5: "r4 = e5 @ e6"
    by (blast dest: run_bind_Inr)
  have k1: "map fst d1 = map fst ?d"
    and c1: "filter is_stage_call e1 = map (\<lambda>k. Convert k None) (tiffies_of ?d)"
    using convert_tiffs_complete [OF 1 tiffies_of_keys] by simp_all
  have "set (pngs_of ?d) \<subseteq> set (map fst d1)"
    using pngs_of_keys [of ?d] k1 by simp
  from convert_pngs_complete [OF 2 this]
  have k2: "map fst d2 = map fst ?d"
    and c2: "filter is_stage_call e2 =
      (if png_convert s
       then map (\<lambda>k. Convert k (Some (jpeg_compression s))) (pngs_of ?d) else [])"
    using k1 by simp_all
  from 3 have s3: "scan_references (index_files kf) d2 = Inr d3" and c3: "e3 = []"
    by (simp_all add: lift_err_def)
  have k3: "map fst d3 = map fst ?d"
    using extends_images_keys [OF scan_references_extends [OF s3]] k2 by simp
  have k4: "map fst d4 = map fst ?d"
    and c4: "filter is_stage_call e4 = map (\<lambda>k. Resize k (resize_factor s)) (map fst ?d)"
    using resize_images_complete [OF 4] k3 by simp_all
  have c5: "filter is_stage_call e5 = map (\<lambda>k. Optimize k (jpeg_compression s)) (map fst ?d)"
    using optimize_images_complete [OF 5] k4 by simp
  have c6: "filter is_stage_call e6 = []"
    using finish_calls [of kf s d5] 6 by simp
  from 0 have c0: "e0 = [Unpack]" by (simp add: emit_def)
  show ?thesis
    unfolding e e1 e2 e3 e4 e5 filter_append c0 c1 c2 c3 c4 c5 c6 by simp
qed

lemma list_all_run_bind:
  "list_all Q (fst m) \<Longrightarrow> (\<And>x. list_all Q (fst (f x))) \<Longrightarrow> list_all Q (fst (run_bind m f))"
  by (simp add: fst_run_bind split: sum.splits)

lemma list_all_stage_loop:
  "(\<And>k. Q (ev k)) \<Longrightarrow> list_all Q (fst (stage_loop ev f ks d))"
  using stage_loop_events [of ev ks f d] by (auto simp: list_all_iff)

lemma list_all_summarize:
  "(\<And>a b r. Q (Summary st a b r)) \<Longrightarrow> list_all Q (fst (summarize st x y))"
  by (simp add: summarize_def split: sum.splits)

lemma no_png_convert_pipeline:
  assumes "\<not> png_convert s"
  shows "list_all (\<lambda>e. \<not> is_png_convert e) (fst (pipeline ops kf s))"
  unfolding pipeline_def convert_tiffs_def convert_pngs_def resize_images_def
    optimize_images_def finish_def
  using assms
  by (auto intro!: list_all_run_bind list_all_stage_loop list_all_summarize
        simp: emit_def lift_err_def)

lemma slim_file_quality_zero:
  assumes "resize_factor args = Finite 2" and "jpeg_compression args = 85"
  shows "slim_file ops kf 0 args = pipeline ops kf args"
  using assms
  by (simp add: slim_file_def Let_def match_quality_def quality_warnings_def run_bind_emit_Nil)

section \<open>Quality selector 0\<close>

text \<open>
  C1, as stated, fails: with selector 0 and the default settings the resize stage and the
  optimize stage are still called on every image. On a file with a single PNG image the
  run calls \<^verbatim>\<open>resize\<close> with factor 2.0 and \<^verbatim>\<open>optimize\<close> with quality 85 on
  it, and the size the optimize method leaves is the size of the record afterwards.
\<close>

theorem quality_zero_counterexample:
  "resize_factor default_settings = Finite 2 \<and> jpeg_compression default_settings = 85
   \<and> \<not> png_convert default_settings
   \<and> slim_file halving_ops png_kf 0 default_settings =
       ([Unpack,
         Resize (PInt 2) (Finite 2), Summary ResizeStage 500000 500000 0,
         Optimize (PInt 2) 85, Summary OptimizeStage 500000 250000 50,
         Repack, Summary FileStage 2000000 251000 (1749 / 20), Rmtree],
        Inr [(PInt 2, png_image\<lparr>size_optimized := 250000,
                references := [Reference SlideStyleReference ''Slide-1.iwa.yaml'' (style_object 2)]\<rparr>)])"
  by code_simp

text \<open>
  C1, amended. With selector 0, resize factor 2.0, JPEG compression 85 and PNG conversion
  off, a run logs no warning and never calls the PNG conversion. If it completes, its
  stage calls are, in this order: \<^verbatim>\<open>convert()\<close> on every TIFF image,
  \<^verbatim>\<open>resize\<close> with factor 2.0 on every image, \<^verbatim>\<open>optimize\<close> with quality 85 on
  every image, each once and in dictionary order.
\<close>

theorem quality_zero_defaults:
  assumes "resize_factor args = Finite 2" and "jpeg_compression args = 85"
    and "\<not> png_convert args"
  shows "warnings_of (fst (slim_file ops kf 0 args)) = []
     \<and> list_all (\<lambda>e. \<not> is_png_convert e) (fst (slim_file ops kf 0 args))
     \<and> (snd (slim_file ops kf 0 args) = Inr d' \<longrightarrow>
          filter is_stage_call (fst (slim_file ops kf 0 args)) =
            map (\<lambda>k. Convert k None) (tiffies_of (images_dict kf)) @
            map (\<lambda>k. Resize k (Finite 2)) (map fst (images_dict kf)) @
            map (\<lambda>k. Optimize k 85) (map fst (images_dict kf)))"
proof (intro conjI impI)
  note eq = slim_file_quality_zero [OF assms(1,2), of ops kf]
  show "warnings_of (fst (slim_file ops kf 0 args)) = []"
    by (simp add: eq warnings_of_pipeline)
  show "list_all (\<lambda>e. \<not> is_png_convert e) (fst (slim_file ops kf 0 args))"
    by (simp add: eq no_png_convert_pipeline [OF assms(3)])
  assume "snd (slim_file ops kf 0 args) = Inr d'"
  then have "pipeline ops kf args = (fst (pipeline ops kf args), Inr d')"
    by (simp add: eq prod_eq_iff)
  from pipeline_complete [OF this] assms
  show "filter is_stage_call (fst (slim_file ops kf 0 args)) =
            map (\<lambda>k. Convert k None) (tiffies_of (images_dict kf)) @
            map (\<lambda>k. Resize k (Finite 2)) (map fst (images_dict kf)) @
            map (\<lambda>k. Optimize k 85) (map fst (images_dict kf))"
    by (simp add: eq)
qed

theorem quality_zero_defaults_witness:
  "warnings_of (fst (slim_file halving_ops small_kf 0 default_settings)) = []
   \<and> list_all (\<lambda>e. \<not> is_png_convert e) (fst (slim_file halving_ops small_kf 0 default_settings))
   \<and> filter is_stage_call (fst (slim_file halving_ops small_kf 0 default_settings)) =
       [Convert (PInt 1) None, Resize (PInt 1) (Finite 2), Resize (PInt 2) (Finite 2),
        Optimize (PInt 1) 85, Optimize (PInt 2) 85]"
proof -
  have a: "resize_factor default_settings = Finite 2" "jpeg_compression default_settings = 85"
    "\<not> png_convert default_settings"
    by (simp_all add: default_settings_def)
  have c: "snd (slim_file halving_ops small_kf 0 default_settings) =
      Inr [(PInt 1, tiff_image\<lparr>filename_suffix := ''.jpeg'', size_converted := 500000,
              size_resized := 500000, size_optimized := 250000,
              references := [Reference SlideReference ''Slide-1.iwa.yaml'' (image_object 1)]\<rparr>),
           (PInt 2, png_image\<lparr>size_optimized := 250000,
              references := [Reference SlideStyleReference ''Slide-1.iwa.yaml'' (style_object 2)]\<rparr>)]"
    by code_simp
  have t: "tiffies_of (images_dict small_kf) = [PInt 1]"
    "map fst (images_dict small_kf) = [PInt 1, PInt 2]"
    by code_simp+
  from quality_zero_defaults [OF a, of halving_ops small_kf] c t show ?thesis
    by simp
qed

section \<open>A stage method that raises\<close>

lemma ends_with_call_Inr: "ends_with_call (evs, Inr x)"
  by (simp add: ends_with_call_def)

lemma ends_with_call_run_bind:
  assumes "ends_with_call m" and "\<And>x. ends_with_call (f x)"
  shows "ends_with_call (run_bind m f)"
proof (cases m)
  case (Pair e1 r)
  show ?thesis
  proof (cases r)
    case (Inl e)
    with Pair assms(1) show ?thesis
      by (auto simp: run_bind_def ends_with_call_def split: error.splits)
  next
    case (Inr x)
    obtain e2 r2 where f: "f x = (e2, r2)" by (cases "f x")
    with assms(2) [of x] have "ends_with_call (e2, r2)" by simp
    then have "ends_with_call (e1 @ e2, r2)"
      by (auto simp: ends_with_call_def split: sum.splits error.splits)
    with Pair Inr f show ?thesis by (simp add: run_bind_def)
  qed
qed

lemma ends_with_call_stage_loop:
  assumes "\<And>k. is_stage_call (ev k)"
  shows "ends_with_call (stage_loop ev f ks d)"
proof (cases "stage_loop ev f ks d")
  case (Pair evs r)
  show ?thesis
  proof (cases r)
    case (Inl e)
    from stage_loop_fails [OF Pair [unfolded Inl]] obtain pre k where "evs = pre @ [ev k]"
      by blast
    with Pair Inl assms [of k] show ?thesis
      by (simp add: ends_with_call_def split: error.splits)
  next
    case (Inr d')
    with Pair show ?thesis by (simp add: ends_with_call_def)
  qed
qed

lemma ends_with_call_summarize: "ends_with_call (summarize st a b)"
  by (simp add: summarize_def reduction_def py_truediv_def bind_err_def ends_with_call_def)

lemma ends_with_call_emit: "ends_with_call (emit evs)"
  by (simp add: emit_def ends_with_call_def)

text \<open>The scanner raises only the built-in lookup and type errors.\<close>

lemma py_getitem_error: "py_getitem v k = Inl e \<Longrightarrow> e \<noteq> StageError m"
  by (cases v) (auto split: option.splits)

lemma py_get_error: "py_get v k dflt = Inl e \<Longrightarrow> e \<noteq> StageError m"
  by (cases v) (auto split: option.splits)

lemma py_contains_error: "py_contains k v = Inl e \<Longrightarrow> e \<noteq> StageError m"
  by (induction k v rule: py_contains.induct) auto

lemma py_iter_error: "py_iter v = Inl e \<Longrightarrow> e \<noteq> StageError m"
  by (induction v rule: py_iter.induct) auto

lemma py_in_images_error: "py_in_images v d = Inl e \<Longrightarrow> e \<noteq> StageError m"
  by (cases v) auto

lemma bind_err_error:
  "bind_err x f = Inl e \<Longrightarrow> (\<And>e'. x = Inl e' \<Longrightarrow> Q e') \<Longrightarrow>
   (\<And>y e'. f y = Inl e' \<Longrightarrow> Q e') \<Longrightarrow> Q e"
  by (cases x) (auto simp: bind_err_def)

lemma py_for_error:
  "py_for xs body s = Inl e \<Longrightarrow> (\<And>x s e'. body x s = Inl e' \<Longrightarrow> Q e') \<Longrightarrow> Q e"
  by (induction xs arbitrary: s) (auto split: sum.splits)

lemma direct_identifier_error: "direct_identifier obj = Inl e \<Longrightarrow> e \<noteq> StageError m"
  unfolding direct_identifier_def
  by (erule bind_err_error) (auto dest: py_get_error)

lemma style_fill_error: "style_fill obj = Inl e \<Longrightarrow> e \<noteq> StageError m"
  unfolding style_fill_def
  by (erule bind_err_error) (auto dest: py_get_error)

lemma style_identifier_error: "style_identifier obj = Inl e \<Longrightarrow> e \<noteq> StageError m"
  unfolding style_identifier_def
  by (auto simp: bind_err_def split: sum.splits dest: py_get_error)

lemma scan_direct_error: "scan_direct yf obj d = Inl e \<Longrightarrow> e \<noteq> StageError m"
  unfolding scan_direct_def
  by (auto simp: bind_err_def split: sum.splits if_splits yaml.splits
        dest: py_getitem_error direct_identifier_error py_in_images_error)

lemma scan_style_error: "scan_style yf obj d = Inl e \<Longrightarrow> e \<noteq> StageError m"
  unfolding scan_style_def
  by (auto simp: bind_err_def split: sum.splits if_splits yaml.splits
        dest: py_getitem_error style_fill_error py_contains_error style_identifier_error
              py_in_images_error)

lemma scan_object_error: "scan_object yf obj d = Inl e \<Longrightarrow> e \<noteq> StageError m"
  unfolding scan_object_def
  by (auto simp: bind_err_def split: sum.splits dest: scan_direct_error scan_style_error)

lemma scan_archive_error: "scan_archive yf a d = Inl e \<Longrightarrow> e \<noteq> StageError m"
  unfolding scan_archive_def
  by (auto simp: bind_err_def split: sum.splits
        dest: py_getitem_error py_iter_error
        elim!: py_for_error [where Q = "\<lambda>e. e \<noteq> StageError m"] dest!: scan_object_error)

lemma scan_chunk_error: "scan_chunk yf c d = Inl e \<Longrightarrow> e \<noteq> StageError m"
  unfolding scan_chunk_def
  by (auto simp: bind_err_def split: sum.splits
        dest: py_getitem_error py_iter_error
        elim!: py_for_error [where Q = "\<lambda>e. e \<noteq> StageError m"] dest!: scan_archive_error)

lemma scan_file_error: "scan_file f d = Inl e \<Longrightarrow> e \<noteq> StageError m"
  unfolding scan_file_def
  by (auto simp: bind_err_def split: sum.splits
        dest: py_getitem_error py_iter_error
        elim!: py_for_error [where Q = "\<lambda>e. e \<noteq> StageError m"] dest!: scan_chunk_error)

lemma scan_references_error: "scan_references fs d = Inl e \<Longrightarrow> e \<noteq> StageError m"
  unfolding scan_references_def
  by (erule py_for_error [where Q = "\<lambda>e. e \<noteq> StageError m"]) (auto dest!: scan_file_error)

lemma ends_with_call_scan: "ends_with_call (lift_err (scan_references fs d))"
proof (cases "scan_references fs d")
  case (Inl e)
  then have "\<And>m. e \<noteq> StageError m" by (rule scan_references_error)
  with Inl show ?thesis
    by (cases e) (auto simp: lift_err_def ends_with_call_def)
next
  case (Inr d')
  then show ?thesis by (simp add: lift_err_def ends_with_call_def)
qed

lemma ends_with_call_pipeline: "ends_with_call (pipeline ops kf s)"
  unfolding pipeline_def convert_tiffs_def convert_pngs_def resize_images_def
    optimize_images_def finish_def
  by (auto intro!: ends_with_call_run_bind ends_with_call_stage_loop ends_with_call_summarize
        ends_with_call_emit ends_with_call_scan ends_with_call_Inr)

lemma ends_with_call_slim_file: "ends_with_call (slim_file ops kf quality args)"
  unfolding slim_file_def Let_def
  by (intro ends_with_call_run_bind ends_with_call_emit ends_with_call_pipeline)

lemma convert_tiffs_fails:
  assumes "ks = ks1 @ k # ks2"
    and "stage_loop (\<lambda>k. Convert k None) (convert ops None) ks1 d = (evs, Inr d1)"
    and "map_of d1 k = Some img" and "convert ops None img = Inl e"
  shows "convert_tiffs ops ks d = (evs @ [Convert k None], Inl e)"
  using stage_loop_append_fail [OF assms(2,3,4), of ks2] assms(1)
  by (simp add: convert_tiffs_def run_bind_def)

lemma convert_pngs_fails:
  assumes "ks = ks1 @ k # ks2" and "png_convert s"
    and "stage_loop (\<lambda>k. Convert k (Some (jpeg_compression s)))
           (convert ops (Some (jpeg_compression s))) ks1 d = (evs, Inr d1)"
    and "map_of d1 k = Some img" and "convert ops (Some (jpeg_compression s)) img = Inl e"
  shows "convert_pngs ops s ks d = (evs @ [Convert k (Some (jpeg_compression s))], Inl e)"
  using stage_loop_append_fail [OF assms(3,4,5), of ks2] assms(1,2)
  by (simp add: convert_pngs_def run_bind_def)

lemma resize_images_fails:
  assumes "map fst d = ks1 @ k # ks2"
    and "stage_loop (\<lambda>k. Resize k (resize_factor s)) (resize ops (resize_factor s)) ks1 d
           = (evs, Inr d1)"
    and "map_of d1 k = Some img" and "resize ops (resize_factor s) img = Inl e"
  shows "resize_images ops s d = (evs @ [Resize k (resize_factor s)], Inl e)"
  using stage_loop_append_fail [OF assms(2,3,4), of ks2] assms(1)
  by (simp add: resize_images_def run_bind_def)

lemma optimize_images_fails:
  assumes "map fst d = ks1 @ k # ks2"
    and "stage_loop (\<lambda>k. Optimize k (jpeg_compression s)) (optimize ops (jpeg_compression s)) ks1 d
           = (evs, Inr d1)"
    and "map_of d1 k = Some img" and "optimize ops (jpeg_compression s) img = Inl e"
  shows "optimize_images ops s d = (evs @ [Optimize k (jpeg_compression s)], Inl e)"
  using stage_loop_append_fail [OF assms(2,3,4), of ks2] assms(1)
  by (simp add: optimize_images_def run_bind_def)

lemma slim_file_phases:
  "slim_file ops kf quality args =
     (let s = match_quality quality args in
      run_bind (emit (map Warn (quality_warnings s) @ [Unpack])) (\<lambda>_.
      run_bind (convert_tiffs ops (tiffies_of (images_dict kf)) (images_dict kf)) (\<lambda>d1.
      run_bind (convert_pngs ops s (pngs_of (images_dict kf)) d1) (\<lambda>d2.
      run_bind (lift_err (scan_references (index_files kf) d2)) (\<lambda>d3.
      run_bind (resize_images ops s d3) (\<lambda>d4.
      run_bind (optimize_images ops s d4) (\<lambda>d5.
        finish kf s d5)))))))"
  by (simp add: slim_file_def pipeline_def Let_def run_bind_def emit_def split: prod.splits sum.splits)

text \<open>
  C2, as stated, fails: \<^verbatim>\<open>slim_file\<close> has no handler around the stage calls. With
  two TIFF images and a conversion that cannot decode, the exception of the first call is
  the outcome of the run; the second image is never converted, nothing is resized,
  optimized, summarized or repacked, and no list of failed records exists.
\<close>

theorem stage_failure_counterexample:
  "tiffies_of (images_dict tiff_kf) = [PInt 1, PInt 3]
   \<and> convert undecodable_ops None tiff_image = Inl (StageError ''UnsupportedFormatError'')
   \<and> slim_file undecodable_ops tiff_kf 0 default_settings
       = ([Unpack, Convert (PInt 1) None], Inl (StageError ''UnsupportedFormatError''))"
  by code_simp

text \<open>
  C2, amended. A stage method that raises ends the run; nothing in the run catches it.
  For each of the four stage loops (TIFF conversion, PNG conversion, resize, optimize):
  when the steps before the loop have completed, the loop has processed the records before
  \<open>k\<close>, and the method raises on \<open>k\<close>, the outcome of the whole run is that error, and
  its events are the warnings, the unpacking, the events of the completed steps, the calls
  of the loop up to the failing one, and nothing after: the records after \<open>k\<close> are not
  visited, and no later stage, summary, repack or export takes place. Conversely, whenever
  a run ends with the error of a stage method, the call of a stage method is its last
  event.
\<close>

theorem stage_failure_aborts_run:
  "(snd (slim_file ops kf quality args) = Inl (StageError m) \<longrightarrow>
      fst (slim_file ops kf quality args) \<noteq> []
      \<and> is_stage_call (last (fst (slim_file ops kf quality args))))
   \<and> (stage_loop ev f ks1 d = (evs, Inr d') \<and> map_of d' k = Some img \<and> f img = Inl e \<longrightarrow>
        stage_loop ev f (ks1 @ k # ks2) d = (evs @ [ev k], Inl e))
   \<and> (tiffies_of (images_dict kf) = ks1 @ k # ks2
      \<and> stage_loop (\<lambda>k. Convert k None) (convert ops None) ks1 (images_dict kf) = (evs, Inr d')
      \<and> map_of d' k = Some img \<and> convert ops None img = Inl e \<longrightarrow>
        slim_file ops kf quality args
          = (map Warn (quality_warnings (match_quality quality args)) @ Unpack # evs @ [Convert k None],
             Inl e))
   \<and> (convert_tiffs ops (tiffies_of (images_dict kf)) (images_dict kf) = (e1, Inr d1)
      \<and> png_convert (match_quality quality args)
      \<and> pngs_of (images_dict kf) = ks1 @ k # ks2
      \<and> stage_loop (\<lambda>k. Convert k (Some (jpeg_compression (match_quality quality args))))
           (convert ops (Some (jpeg_compression (match_quality quality args)))) ks1 d1 = (evs, Inr d')
      \<and> map_of d' k = Some img
      \<and> convert ops (Some (jpeg_compression (match_quality quality args))) img = Inl e \<longrightarrow>
        slim_file ops kf quality args
          = (map Warn (quality_warnings (match_quality quality args)) @ Unpack # e1 @ evs @
               [Convert k (Some (jpeg_compression (match_quality quality args)))],
             Inl e))
   \<and> (convert_tiffs ops (tiffies_of (images_dict kf)) (images_dict kf) = (e1, Inr d1)
      \<and> convert_pngs ops (match_quality quality args) (pngs_of (images_dict kf)) d1 = (e2, Inr d2)
      \<and> scan_references (index_files kf) d2 = Inr d3
      \<and> map fst d3 = ks1 @ k # ks2
      \<and> stage_loop (\<lambda>k. Resize k (resize_factor (match_quality quality args)))
           (resize ops (resize_factor (match_quality quality args))) ks1 d3 = (evs, Inr d')
      \<and> map_of d' k = Some img
      \<and> resize ops (resize_factor (match_quality quality args)) img = Inl e \<longrightarrow>
        slim_file ops kf quality args
          = (map Warn (quality_warnings (match_quality quality args)) @ Unpack # e1 @ e2 @ evs @
               [Resize k (resize_factor (match_quality quality args))],
             Inl e))
   \<and> (convert_tiffs ops (tiffies_of (images_dict kf)) (images_dict kf) = (e1, Inr d1)
      \<and> convert_pngs ops (match_quality quality args) (pngs_of (images_dict kf)) d1 = (e2, Inr d2)
      \<and> scan_references (index_files kf) d2 = Inr d3
      \<and> resize_images ops (match_quality quality args) d3 = (e4, Inr d4)
      \<and> map fst d4 = ks1 @ k # ks2
      \<and> stage_loop (\<lambda>k. Optimize k (jpeg_compression (match_quality quality args)))
           (optimize ops (jpeg_compression (match_quality quality args))) ks1 d4 = (evs, Inr d')
      \<and> map_of d' k = Some img
      \<and> optimize ops (jpeg_compression (match_quality quality args)) img = Inl e \<longrightarrow>
        slim_file ops kf quality args
          = (map Warn (quality_warnings (match_quality quality args)) @ Unpack # e1 @ e2 @ e4 @ evs @
               [Optimize k (jpeg_compression (match_quality quality args))],
             Inl e))"
proof (intro conjI impI)
  assume "snd (slim_file ops kf quality args) = Inl (StageError m)"
  with ends_with_call_slim_file [of ops kf quality args]
  show "fst (slim_file ops kf quality args) \<noteq> []"
    and "is_stage_call (last (fst (slim_file ops kf quality args)))"
    by (simp_all add: ends_with_call_def)
next
  assume "stage_loop ev f ks1 d = (evs, Inr d') \<and> map_of d' k = Some img \<and> f img = Inl e"
  then show "stage_loop ev f (ks1 @ k # ks2) d = (evs @ [ev k], Inl e)"
    by (simp add: stage_loop_append_fail)
next
  assume a: "tiffies_of (images_dict kf) = ks1 @ k # ks2
      \<and> stage_loop (\<lambda>k. Convert k None) (convert ops None) ks1 (images_dict kf) = (evs, Inr d')
      \<and> map_of d' k = Some img \<and> convert ops None img = Inl e"
  then have "convert_tiffs ops (tiffies_of (images_dict kf)) (images_dict kf)
               = (evs @ [Convert k None], Inl e)"
    by (intro convert_tiffs_fails [where ?ks1.0 = ks1 and ?ks2.0 = ks2 and ?d1.0 = d' and img = img])
       simp_all
  then show "slim_file ops kf quality args
          = (map Warn (quality_warnings (match_quality quality args)) @ Unpack # evs @ [Convert k None],
             Inl e)"
    by (simp add: slim_file_phases Let_def run_bind_def emit_def)
next
  let ?s = "match_quality quality args"
  assume a: "convert_tiffs ops (tiffies_of (images_dict kf)) (images_dict kf) = (e1, Inr d1)
      \<and> png_convert ?s
      \<and> pngs_of (images_dict kf) = ks1 @ k # ks2
      \<and> stage_loop (\<lambda>k. Convert k (Some (jpeg_compression ?s)))
           (convert ops (Some (jpeg_compression ?s))) ks1 d1 = (evs, Inr d')
      \<and> map_of d' k = Some img
      \<and> convert ops (Some (jpeg_compression ?s)) img = Inl e"
  then have "convert_pngs ops ?s (pngs_of (images_dict kf)) d1
               = (evs @ [Convert k (Some (jpeg_compression ?s))], Inl e)"
    by (intro convert_pngs_fails [where ?ks1.0 = ks1 and ?ks2.0 = ks2 and ?d1.0 = d' and img = img])
       simp_all
  with a show "slim_file ops kf quality args
          = (map Warn (quality_warnings ?s) @ Unpack # e1 @ evs @
               [Convert k (Some (jpeg_compression ?s))], Inl e)"
    by (simp add: slim_file_phases Let_def run_bind_def emit_def)
next
  let ?s = "match_quality quality args"
  assume a: "convert_tiffs ops (tiffies_of (images_dict kf)) (images_dict kf) = (e1, Inr d1)
      \<and> convert_pngs ops ?s (pngs_of (images_dict kf)) d1 = (e2, Inr d2)
      \<and> scan_references (index_files kf) d2 = Inr d3
      \<and> map fst d3 = ks1 @ k # ks2
      \<and> stage_loop (\<lambda>k. Resize k (resize_factor ?s))
           (resize ops (resize_factor ?s)) ks1 d3 = (evs, Inr d')
      \<and> map_of d' k = Some img
      \<and> resize ops (resize_factor ?s) img = Inl e"
  then have "resize_images ops ?s d3 = (evs @ [Resize k (resize_factor ?s)], Inl e)"
    by (intro resize_images_fails [where ?ks1.0 = ks1 and ?ks2.0 = ks2 and ?d1.0 = d' and img = img])
       simp_all
  with a show "slim_file ops kf quality args
          = (map Warn (quality_warnings ?s) @ Unpack # e1 @ e2 @ evs @
               [Resize k (resize_factor ?s)], Inl e)"
    by (simp add: slim_file_phases Let_def run_bind_def emit_def lift_err_def)
next
  let ?s = "match_quality quality args"
  assume a: "convert_tiffs ops (tiffies_of (images_dict kf)) (images_dict kf) = (e1, Inr d1)
      \<and> convert_pngs ops ?s (pngs_of (images_dict kf)) d1 = (e2, Inr d2)
      \<and> scan_references (index_files kf) d2 = Inr d3
      \<and> resize_images ops ?s d3 = (e4, Inr d4)
      \<and> map fst d4 = ks1 @ k # ks2
      \<and> stage_loop (\<lambda>k. Optimize k (jpeg_compression ?s))
           (optimize ops (jpeg_compression ?s)) ks1 d4 = (evs, Inr d')
      \<and> map_of d' k = Some img
      \<and> optimize ops (jpeg_compression ?s) img = Inl e"
  then have "optimize_images ops ?s d4 = (evs @ [Optimize k (jpeg_compression ?s)], Inl e)"
    by (intro optimize_images_fails [where ?ks1.0 = ks1 and ?ks2.0 = ks2 and ?d1.0 = d' and img = img])
       simp_all
  with a show "slim_file ops kf quality args
          = (map Warn (quality_warnings ?s) @ Unpack # e1 @ e2 @ e4 @ evs @
               [Optimize k (jpeg_compression ?s)], Inl e)"
    by (simp add: slim_file_phases Let_def run_bind_def emit_def lift_err_def)
qed

theorem stage_failure_aborts_run_witness:
  "slim_file picky_ops tiff_kf 0 default_settings
     = ([Unpack, Convert (PInt 1) None, Convert (PInt 3) None],
        Inl (StageError ''UnsupportedFormatError''))
   \<and> is_stage_call (last (fst (slim_file picky_ops tiff_kf 0 default_settings)))
   \<and> stage_loop (\<lambda>k. Convert k None) (convert picky_ops None) [PInt 1, PInt 3] (images_dict tiff_kf)
     = ([Convert (PInt 1) None, Convert (PInt 3) None], Inl (StageError ''UnsupportedFormatError''))
   \<and> slim_file png_failing_ops small_kf 1 default_settings
     = ([Unpack, Convert (PInt 1) None, Summary TiffStage 1000000 500000 50, MetadataSave,
         Convert (PInt 2) (Some 80)],
        Inl (StageError ''EncodingError''))
   \<and> slim_file resize_failing_ops small_kf 0 default_settings
     = ([Unpack, Convert (PInt 1) None, Summary TiffStage 1000000 500000 50, MetadataSave,
         Resize (PInt 1) (Finite 2)],
        Inl (StageError ''EncodingError''))
   \<and> slim_file optimize_failing_ops small_kf 0 default_settings
     = ([Unpack, Convert (PInt 1) None, Summary TiffStage 1000000 500000 50, MetadataSave,
         Resize (PInt 1) (Finite 2), Resize (PInt 2) (Finite 2),
         Summary ResizeStage 1000000 1000000 0, Optimize (PInt 1) 85],
        Inl (StageError ''EncodingError''))"
proof -
  let ?tiff1 = "tiff_image\<lparr>filename_suffix := ''.jpeg'', size_converted := 500000,
                  size_resized := 500000, size_optimized := 500000\<rparr>"
  let ?tiff3 = "tiff_image\<lparr>filename_name := ''c.tiff'', filename_suffix := ''.tiff''\<rparr>"
  let ?e1 = "[Convert (PInt 1) None, Summary TiffStage 1000000 500000 50, MetadataSave]"
  let ?d1 = "[(PInt 1, ?tiff1), (PInt 2, png_image)]"
  let ?img1 = "?tiff1\<lparr>references := [Reference SlideReference ''Slide-1.iwa.yaml'' (image_object 1)]\<rparr>"
  let ?img2 = "png_image\<lparr>references := [Reference SlideStyleReference ''Slide-1.iwa.yaml'' (style_object 2)]\<rparr>"
  let ?d3 = "[(PInt 1, ?img1), (PInt 2, ?img2)]"
  let ?e4 = "[Resize (PInt 1) (Finite 2), Resize (PInt 2) (Finite 2),
              Summary ResizeStage 1000000 1000000 0]"
  let ?unsupported = "StageError ''UnsupportedFormatError''"
  let ?encoding = "StageError ''EncodingError''"
  note tiff = stage_failure_aborts_run
      [where ops = picky_ops and kf = tiff_kf and quality = 0 and args = default_settings
         and m = "''UnsupportedFormatError''" and ev = "\<lambda>k. Convert k None"
         and f = "convert picky_ops None" and ?ks1.0 = "[PInt 1]" and d = "images_dict tiff_kf"
         and evs = "[Convert (PInt 1) None]"
         and d' = "[(PInt 1, ?tiff1), (PInt 3, ?tiff3)]"
         and k = "PInt 3" and img = ?tiff3 and e = ?unsupported and ?ks2.0 = "[]"]
  have r3: "slim_file picky_ops tiff_kf 0 default_settings
          = (map Warn (quality_warnings (match_quality 0 default_settings)) @
               Unpack # [Convert (PInt 1) None] @ [Convert (PInt 3) None], Inl ?unsupported)"
    by (rule tiff [THEN conjunct2, THEN conjunct2, THEN conjunct1, THEN mp]) code_simp
  have r2: "stage_loop (\<lambda>k. Convert k None) (convert picky_ops None) ([PInt 1] @ PInt 3 # [])
              (images_dict tiff_kf)
          = ([Convert (PInt 1) None] @ [Convert (PInt 3) None], Inl ?unsupported)"
    by (rule tiff [THEN conjunct2, THEN conjunct1, THEN mp]) code_simp
  have "snd (slim_file picky_ops tiff_kf 0 default_settings) = Inl ?unsupported"
    by (simp add: r3)
  from tiff [THEN conjunct1, THEN mp, OF this]
  have r1: "is_stage_call (last (fst (slim_file picky_ops tiff_kf 0 default_settings)))"
    by (rule conjunct2)
  note png = stage_failure_aborts_run
      [where ops = png_failing_ops and kf = small_kf and quality = 1 and args = default_settings
         and ?e1.0 = ?e1 and ?d1.0 = ?d1 and ?ks1.0 = "[]" and k = "PInt 2" and ?ks2.0 = "[]"
         and evs = "[]" and d' = ?d1 and img = png_image and e = ?encoding]
  have r4: "slim_file png_failing_ops small_kf 1 default_settings
          = (map Warn (quality_warnings (match_quality 1 default_settings)) @ Unpack # ?e1 @ [] @
               [Convert (PInt 2) (Some (jpeg_compression (match_quality 1 default_settings)))],
             Inl ?encoding)"
    by (rule png [THEN conjunct2, THEN conjunct2, THEN conjunct2, THEN conjunct1, THEN mp])
       code_simp
  note rsz = stage_failure_aborts_run
      [where ops = resize_failing_ops and kf = small_kf and quality = 0 and args = default_settings
         and ?e1.0 = ?e1 and ?d1.0 = ?d1 and ?e2.0 = "[]" and ?d2.0 = ?d1 and ?d3.0 = ?d3
         and ?ks1.0 = "[]" and k = "PInt 1" and ?ks2.0 = "[PInt 2]"
         and evs = "[]" and d' = ?d3 and img = ?img1 and e = ?encoding]
  have r5: "slim_file resize_failing_ops small_kf 0 default_settings
          = (map Warn (quality_warnings (match_quality 0 default_settings)) @ Unpack # ?e1 @ [] @ [] @
               [Resize (PInt 1) (resize_factor (match_quality 0 default_settings))],
             Inl ?encoding)"
    by (rule rsz [THEN conjunct2, THEN conjunct2, THEN conjunct2, THEN conjunct2, THEN conjunct1,
                  THEN mp])
       code_simp
  note opt = stage_failure_aborts_run
      [where ops = optimize_failing_ops and kf = small_kf and quality = 0 and args = default_settings
         and ?e1.0 = ?e1 and ?d1.0 = ?d1 and ?e2.0 = "[]" and ?d2.0 = ?d1 and ?d3.0 = ?d3
         and ?e4.0 = ?e4 and ?d4.0 = ?d3
         and ?ks1.0 = "[]" and k = "PInt 1" and ?ks2.0 = "[PInt 2]"
         and evs = "[]" and d' = ?d3 and img = ?img1 and e = ?encoding]
  have r6: "slim_file optimize_failing_ops small_kf 0 default_settings
          = (map Warn (quality_warnings (match_quality 0 default_settings)) @ Unpack # ?e1 @ [] @ ?e4 @ [] @
               [Optimize (PInt 1) (jpeg_compression (match_quality 0 default_settings))],
             Inl ?encoding)"
    by (rule opt [THEN conjunct2, THEN conjunct2, THEN conjunct2, THEN conjunct2, THEN conjunct2,
                  THEN mp])
       code_simp
  have q0: "quality_warnings (match_quality 0 default_settings) = []"
    "resize_factor (match_quality 0 default_settings) = Finite 2"
    "jpeg_compression (match_quality 0 default_settings) = 85"
    "quality_warnings (match_quality 1 default_settings) = []"
    "jpeg_compression (match_quality 1 default_settings) = 80"
    by code_simp+
  show ?thesis
    using r1 r2 r3 r4 r5 r6 by (simp add: q0)
qed

end
